theory Spec2Isabelle
  imports Main "HOL-Library.Sublist" "HOL-Library.Multiset"
begin

section \<open>Data model\<close>

text \<open>
  The records follow the Go structs of the final revision of the program (the one with
  \<open>poll\<close>): \<open>Sync\<close>, \<open>Change\<close>, \<open>PullRequest\<close>, \<open>GitHubRevision\<close> and
  \<open>GitHubStatus\<close>. The types \<open>gerrit.ChangeInfo\<close>, \<open>gerrit.RevisionInfo\<close>,
  \<open>gerrit.ChangeMessageInfo\<close> and \<open>gerrit.ReviewInput\<close> belong to an imported package;
  only the fields the program reads or writes are kept. Go strings are byte strings, as
  \<open>string\<close> is here. A nil pointer is \<open>None\<close>.
\<close>

record Sync =
  GerritURL :: string
  GitHubOwner :: string
  AuthToken :: string

record GitHubRevision =
  Ref :: string
  SHA :: string
  Repo_Name :: string

record PullRequest =
  Number :: int
  Head :: GitHubRevision
  Base :: GitHubRevision

record GitHubStatus =
  Context :: string
  State :: string
  Description :: string
  Target :: string

record RevisionInfo =
  rev_Ref :: string

record ChangeMessageInfo =
  Message :: string

record ChangeInfo =
  Project :: string
  ChangeID :: string
  CurrentRevision :: string
  Revisions :: "(string \<times> RevisionInfo) list"
  Subject :: string
  Messages :: "ChangeMessageInfo list"

record ReviewInput =
  ri_Message :: string
  ri_Labels :: "(string \<times> int) list"

record Change =
  ChangeInfo :: "ChangeInfo option"
  PullRequest :: "PullRequest option"

text \<open>
  The JSON payloads of the two POST requests: the anonymous struct of
  \<open>createPullRequest\<close> (title, body, head, base) and that of \<open>closePullRequest\<close> (state).
\<close>

datatype payload =
    NewPull string string string string
  | SetState string

section \<open>The outside world\<close>

text \<open>
  Every call that leaves the process is recorded, in order, in a history. What the
  outside answers is a function of the history so far and of the call, so the
  development holds for every behaviour of Gerrit, GitHub, git and the file system.
  \<open>Log\<close> is a line written by \<open>log.Printf\<close>.
\<close>

datatype call =
    Log string
  | Git string "string list"
  | Stat string
  | MkdirAll string
  | RemoveAll string
  | QueryChanges
  | SetReview string string ReviewInput
  | GitHubGet string
  | GitHubPost string payload

text \<open>
  \<open>exec.Cmd.CombinedOutput\<close> gives the output and an error; \<open>os.Stat\<close> gives a file
  info (of which only \<open>IsDir\<close> is read), an error for which \<open>os.IsNotExist\<close> holds, or
  another error.
\<close>

datatype cmd_result = CmdOK string | CmdFail string string

datatype stat_result = StatOK bool | StatNotExist | StatErr string

text \<open>
  The answers of the outside. \<open>github\<close> decodes the body into the variable it is given,
  so there is one field for each type the program asks for. \<open>filepath_Join\<close> and
  \<open>Sprint\<close> are the library functions \<open>filepath.Join\<close> (on two elements) and
  \<open>fmt.Sprint\<close> (on an int); \<open>range_order\<close> is the order in which the runtime
  ranges over the keys of the map of changes.
\<close>

record ext =
  exec_git :: "call list \<Rightarrow> string \<Rightarrow> string list \<Rightarrow> cmd_result"
  os_Stat :: "call list \<Rightarrow> string \<Rightarrow> stat_result"
  os_MkdirAll :: "call list \<Rightarrow> string \<Rightarrow> string option"
  gerrit_QueryChanges :: "call list \<Rightarrow> string + ChangeInfo list"
  gerrit_SetReview :: "call list \<Rightarrow> string \<Rightarrow> string \<Rightarrow> ReviewInput \<Rightarrow> string option"
  github_repos :: "call list \<Rightarrow> string \<Rightarrow> string + string list"
  github_pulls :: "call list \<Rightarrow> string \<Rightarrow> string + PullRequest list"
  github_statuses :: "call list \<Rightarrow> string \<Rightarrow> string + GitHubStatus list"
  github_post :: "call list \<Rightarrow> string \<Rightarrow> payload \<Rightarrow> string option"
  filepath_Join :: "string \<Rightarrow> string \<Rightarrow> string"
  Sprint :: "int \<Rightarrow> string"
  range_order :: "(string \<rightharpoonup> Change) \<Rightarrow> string list"

text \<open>What a pass returns: nil, an error, or a run-time panic.\<close>

datatype outcome = Done | Failed string | Panic

section \<open>String functions of the Go library\<close>

text \<open>\<open>strings.Join(args, " ")\<close>.\<close>

fun Join :: "string list \<Rightarrow> string" where
  "Join [] = []"
| "Join [a] = a"
| "Join (a # b # bs) = a @ '' '' @ Join (b # bs)"

text \<open>\<open>strings.Contains(s, substr)\<close>.\<close>

definition Contains :: "string \<Rightarrow> string \<Rightarrow> bool" where
  "Contains s substr = sublist substr s"

text \<open>
  \<open>strings.SplitN(s, "/", 2)\<close>: the whole string when it has no slash, else the part
  before the first slash and the rest after it.
\<close>

definition SplitN2 :: "string \<Rightarrow> string list" where
  "SplitN2 s =
     (if CHR ''/'' \<in> set s
      then [takeWhile (\<lambda>c. c \<noteq> CHR ''/'') s, tl (dropWhile (\<lambda>c. c \<noteq> CHR ''/'') s)]
      else [s])"

definition isGerritChange :: "string \<Rightarrow> bool" where
  "isGerritChange id' = prefix ''I'' id'"

section \<open>Version control\<close>

text \<open>\<open>git\<close>: run the command in \<open>dir\<close>; on failure the error text holds the arguments,
  the error and the combined output.\<close>

definition git :: "ext \<Rightarrow> string \<Rightarrow> string list \<Rightarrow> call list \<Rightarrow> string option \<times> call list" where
  "git x dir args h =
     (case exec_git x h dir args of
        CmdOK out \<Rightarrow> (None, h @ [Git dir args])
      | CmdFail err out \<Rightarrow>
          (Some (''git '' @ Join args @ '': '' @ err @ [CHR 0x0A] @ out), h @ [Git dir args]))"

definition clone :: "ext \<Rightarrow> Sync \<Rightarrow> string \<Rightarrow> string \<Rightarrow> call list \<Rightarrow> string option \<times> call list" where
  "clone x s dir project h =
     (let h1 = h @ [Stat dir] in
      case os_Stat x h dir of
        StatErr err \<Rightarrow> (Some err, h1)
      | StatOK isDir \<Rightarrow>
          if \<not> isDir then (Some (''clone destination is not a directory: '' @ dir), h1)
          else (case git x dir [''checkout'', ''master''] h1 of
                  (Some err, h2) \<Rightarrow> (None, h2)
                | (None, h2) \<Rightarrow> git x dir [''pull''] h2)
      | StatNotExist \<Rightarrow>
          (case os_MkdirAll x h1 dir of
             Some err \<Rightarrow> (Some err, h1 @ [MkdirAll dir])
           | None \<Rightarrow>
               (let h2 = h1 @ [MkdirAll dir];
                    url = GerritURL s @ ''/'' @ project in
                case git x dir [''clone'', url, dir] h2 of
                  (Some err, h3) \<Rightarrow> (Some err, h3 @ [RemoveAll dir])
                | (None, h3) \<Rightarrow> git x dir [''checkout'', ''master''] h3)))"

text \<open>\<open>c.Revisions[c.CurrentRevision].Ref\<close>: a missing key gives the zero value.\<close>

definition current_Ref :: "ChangeInfo \<Rightarrow> string" where
  "current_Ref c =
     (case map_of (Revisions c) (CurrentRevision c) of None \<Rightarrow> [] | Some r \<Rightarrow> rev_Ref r)"

text \<open>The part of \<open>syncBranch\<close> after the branch is checked out: fetch, reset, push.\<close>

definition syncBranch_reset :: "ext \<Rightarrow> Sync \<Rightarrow> string \<Rightarrow> ChangeInfo \<Rightarrow> call list \<Rightarrow> string option \<times> call list" where
  "syncBranch_reset x s dir c h =
     (let src = GerritURL s @ ''/'' @ Project c;
          ref = current_Ref c in
      case git x dir [''fetch'', src, ref] h of
        (Some err, h1) \<Rightarrow> (Some err, h1)
      | (None, h1) \<Rightarrow>
          (case git x dir [''reset'', ''--hard'', ''FETCH_HEAD''] h1 of
             (Some err, h2) \<Rightarrow> (Some err, h2)
           | (None, h2) \<Rightarrow>
               (let dest = ''https://'' @ AuthToken s @ ''@github.com/'' @ GitHubOwner s @ ''/'' @ Project c
                in git x dir [''push'', ''-f'', dest, ChangeID c] h2)))"

definition syncBranch :: "ext \<Rightarrow> Sync \<Rightarrow> string \<Rightarrow> ChangeInfo \<Rightarrow> call list \<Rightarrow> string option \<times> call list" where
  "syncBranch x s dir c h =
     (case clone x s dir (Project c) h of
        (Some err, h1) \<Rightarrow> (Some err, h1)
      | (None, h1) \<Rightarrow>
          (case git x dir [''checkout'', ChangeID c] h1 of
             (Some err, h2) \<Rightarrow>
               (case git x dir [''checkout'', ''-b'', ChangeID c] h2 of
                  (Some err2, h3) \<Rightarrow> (Some err, h3)
                | (None, h3) \<Rightarrow> syncBranch_reset x s dir c h3)
           | (None, h2) \<Rightarrow> syncBranch_reset x s dir c h2))"

definition deleteBranch :: "ext \<Rightarrow> Sync \<Rightarrow> string \<Rightarrow> string \<Rightarrow> string \<Rightarrow> call list \<Rightarrow> string option \<times> call list" where
  "deleteBranch x s dir repo id' h =
     (case clone x s dir repo h of
        (Some err, h1) \<Rightarrow> (Some err, h1)
      | (None, h1) \<Rightarrow>
          (let dest = ''https://'' @ AuthToken s @ ''@github.com/'' @ GitHubOwner s @ ''/'' @ repo in
           case git x dir [''push'', ''--delete'', dest, id'] h1 of
             (Some err, h2) \<Rightarrow> (Some err, h2)
           | (None, h2) \<Rightarrow> (None, snd (git x dir [''branch'', ''-D'', id'] h2))))"

section \<open>GitHub and Gerrit requests\<close>

text \<open>
  \<open>github\<close> sends a GET (no payload) or a POST to this URL; a transport error, a status
  outside 2xx and a body that does not decode are all errors. \<open>pullRequests\<close> and
  \<open>githubRepos\<close> return what the decoder stored in the variable they passed.
\<close>

definition github_url :: "Sync \<Rightarrow> string \<Rightarrow> string" where
  "github_url s path = ''https://'' @ AuthToken s @ ''@api.github.com/'' @ path"

definition gerritChanges :: "ext \<Rightarrow> call list \<Rightarrow> (string + ChangeInfo list) \<times> call list" where
  "gerritChanges x h = (gerrit_QueryChanges x h, h @ [QueryChanges])"

definition githubRepos :: "ext \<Rightarrow> Sync \<Rightarrow> call list \<Rightarrow> (string + string list) \<times> call list" where
  "githubRepos x s h =
     (let url = github_url s (''users/'' @ GitHubOwner s @ ''/repos'')
      in (github_repos x h url, h @ [GitHubGet url]))"

definition pullRequests :: "ext \<Rightarrow> Sync \<Rightarrow> string \<Rightarrow> call list \<Rightarrow> (string + PullRequest list) \<times> call list" where
  "pullRequests x s repo h =
     (let url = github_url s (''repos/'' @ GitHubOwner s @ ''/'' @ repo @ ''/pulls'')
      in (github_pulls x h url, h @ [GitHubGet url]))"

definition createPullRequest :: "ext \<Rightarrow> Sync \<Rightarrow> ChangeInfo \<Rightarrow> call list \<Rightarrow> string option \<times> call list" where
  "createPullRequest x s ci h =
     (let payload = NewPull (Subject ci)
            ''Automatically created pull request. **Do not review or merge this PR.**''
            (ChangeID ci) ''master'';
          url = github_url s (''repos/'' @ GitHubOwner s @ ''/'' @ Project ci @ ''/pulls'')
      in (github_post x h url payload, h @ [GitHubPost url payload]))"

definition closePullRequest :: "ext \<Rightarrow> Sync \<Rightarrow> PullRequest \<Rightarrow> call list \<Rightarrow> string option \<times> call list" where
  "closePullRequest x s pr h =
     (let payload = SetState ''closed'';
          url = github_url s (''repos/'' @ Repo_Name (Head pr) @ ''/pulls/'' @ Sprint x (Number pr))
      in (github_post x h url payload, h @ [GitHubPost url payload]))"

section \<open>Feedback relay\<close>

text \<open>
  The loop of \<open>syncComments\<close> over the statuses. \<open>ci\<close> is the pointer \<open>c.ChangeInfo\<close>:
  reading \<open>ci.Messages\<close> through a nil pointer panics. The inner loop with its
  \<open>break\<close> is \<open>list_ex\<close>. The list of messages is the one fetched with the change; a
  review posted by this loop is not added to it.
\<close>

fun relay :: "ext \<Rightarrow> ChangeInfo option \<Rightarrow> GitHubStatus list \<Rightarrow> call list \<Rightarrow> outcome \<times> call list" where
  "relay x ci [] h = (Done, h)"
| "relay x ci (stat # statuses) h =
     (if Context stat \<noteq> ''continuous-integration/travis-ci/pr'' then relay x ci statuses h
      else if State stat \<noteq> ''success'' \<and> State stat \<noteq> ''failure'' then relay x ci statuses h
      else
        (let msg = Description stat @ '': '' @ Target stat in
         case ci of
           None \<Rightarrow> (Panic, h)
         | Some ci' \<Rightarrow>
             (let found = list_ex (\<lambda>m. Contains (Message m) msg) (Messages ci') in
              if \<not> found then
                (let labels = (if State stat = ''failure'' then [(''Code-Review'', - 1)] else []);
                     input = \<lparr>ri_Message = msg, ri_Labels = labels\<rparr>;
                     h1 = h @ [SetReview (ChangeID ci') (CurrentRevision ci') input] in
                 case gerrit_SetReview x h (ChangeID ci') (CurrentRevision ci') input of
                   Some err \<Rightarrow> (Failed err, h1)
                 | None \<Rightarrow> relay x ci statuses h1)
              else relay x ci statuses h)))"

definition syncComments :: "ext \<Rightarrow> Sync \<Rightarrow> Change \<Rightarrow> call list \<Rightarrow> outcome \<times> call list" where
  "syncComments x s c h =
     (case PullRequest c of
        None \<Rightarrow> (Panic, h)
      | Some pr \<Rightarrow>
          (let url = github_url s
                 (''repos/'' @ Repo_Name (Head pr) @ ''/commits/'' @ SHA (Head pr) @ ''/statuses'');
               h1 = h @ [GitHubGet url] in
           case github_statuses x h url of
             Inl err \<Rightarrow> (Failed err, h1)
           | Inr statuses \<Rightarrow> relay x (ChangeInfo c) statuses h1))"

section \<open>One pass: join, then dispatch\<close>

text \<open>The first loop of \<open>poll\<close>: each change replaces the entry under its id.\<close>

definition joinChanges :: "ChangeInfo list \<Rightarrow> (string \<rightharpoonup> Change) \<Rightarrow> (string \<rightharpoonup> Change)" where
  "joinChanges cis changes =
     fold (\<lambda>ci m. m(ChangeID ci \<mapsto> \<lparr>ChangeInfo = Some ci, PullRequest = None\<rparr>)) cis changes"

text \<open>The body of the inner loop over the pull requests of one repository.\<close>

definition joinPullRequest :: "PullRequest \<Rightarrow> (string \<rightharpoonup> Change) \<Rightarrow> (string \<rightharpoonup> Change)" where
  "joinPullRequest pr changes =
     (if \<not> isGerritChange (Ref (Head pr)) then changes
      else case changes (Ref (Head pr)) of
             None \<Rightarrow> changes(Ref (Head pr) \<mapsto> \<lparr>ChangeInfo = None, PullRequest = Some pr\<rparr>)
           | Some c \<Rightarrow> changes(Ref (Head pr) \<mapsto> c\<lparr>PullRequest := Some pr\<rparr>))"

definition joinPullRequests :: "PullRequest list \<Rightarrow> (string \<rightharpoonup> Change) \<Rightarrow> (string \<rightharpoonup> Change)" where
  "joinPullRequests prs changes = fold joinPullRequest prs changes"

text \<open>The loop over the repositories: list the pull requests of each, and join them.\<close>

fun joinRepos :: "ext \<Rightarrow> Sync \<Rightarrow> string list \<Rightarrow> (string \<rightharpoonup> Change) \<Rightarrow> call list
    \<Rightarrow> (string + (string \<rightharpoonup> Change)) \<times> call list" where
  "joinRepos x s [] changes h = (Inr changes, h)"
| "joinRepos x s (repo # repos) changes h =
     (case pullRequests x s repo h of
        (Inl err, h1) \<Rightarrow> (Inl err, h1)
      | (Inr prs, h1) \<Rightarrow> joinRepos x s repos (joinPullRequests prs changes) h1)"

text \<open>\<open>poll\<close> up to its last loop: the map of changes, or the error of a fetch.\<close>

definition buildJoin :: "ext \<Rightarrow> Sync \<Rightarrow> call list \<Rightarrow> (string + (string \<rightharpoonup> Change)) \<times> call list" where
  "buildJoin x s h =
     (case gerritChanges x h of
        (Inl err, h1) \<Rightarrow> (Inl err, h1)
      | (Inr cis, h1) \<Rightarrow>
          (case githubRepos x s h1 of
             (Inl err, h2) \<Rightarrow> (Inl err, h2)
           | (Inr repos, h2) \<Rightarrow> joinRepos x s repos (joinChanges cis Map.empty) h2))"

text \<open>
  The body of the last loop of \<open>poll\<close>: the \<open>switch\<close> on which pointers are nil. Indexing
  the result of \<open>strings.SplitN\<close> at 1 panics when it has one element.
\<close>

definition dispatch :: "ext \<Rightarrow> Sync \<Rightarrow> string \<Rightarrow> Change \<Rightarrow> call list \<Rightarrow> outcome \<times> call list" where
  "dispatch x s root c h =
     (case (PullRequest c, ChangeInfo c) of
        (None, Some ci) \<Rightarrow>
          (let h0 = h @ [Log (''Gerrit change '' @ ChangeID ci @
                            '' needs corresponding pull request. Creating one.'')];
               dir = filepath_Join x root (Project ci) in
           case syncBranch x s dir ci h0 of
             (Some err, h1) \<Rightarrow> (Failed err, h1)
           | (None, h1) \<Rightarrow>
               (case createPullRequest x s ci h1 of
                  (Some err, h2) \<Rightarrow> (Failed err, h2)
                | (None, h2) \<Rightarrow> (Done, h2)))
      | (Some pr, Some ci) \<Rightarrow>
          (if SHA (Head pr) = CurrentRevision ci then
             syncComments x s c
               (h @ [Log (''Gerrit change '' @ ChangeID ci @ '' already synced with pull request.'')])
           else
             (let h0 = h @ [Log (''Gerrit change '' @ ChangeID ci @
                               '' needs sync with pull request. Syncing.'')];
                  dir = filepath_Join x root (Project ci) in
              case syncBranch x s dir ci h0 of
                (Some err, h1) \<Rightarrow> (Failed err, h1)
              | (None, h1) \<Rightarrow> (Done, h1)))
      | (Some pr, None) \<Rightarrow>
          (let h0 = h @ [Log (''Pull request '' @ Sprint x (Number pr) @
                            '' has no corresponding Gerrit change. Closing.'')] in
           case closePullRequest x s pr h0 of
             (Some err, h1) \<Rightarrow> (Failed err, h1)
           | (None, h1) \<Rightarrow>
               (let parts = SplitN2 (Repo_Name (Head pr)) in
                if length parts \<le> 1 then (Panic, h1)
                else
                  (let repo = parts ! 1;
                       dir = filepath_Join x root repo in
                   case deleteBranch x s dir repo (Ref (Head pr)) h1 of
                     (Some err, h2) \<Rightarrow> (Failed err, h2)
                   | (None, h2) \<Rightarrow> (Done, h2))))
      | (None, None) \<Rightarrow> (Done, h))"

fun dispatchAll :: "ext \<Rightarrow> Sync \<Rightarrow> string \<Rightarrow> Change list \<Rightarrow> call list \<Rightarrow> outcome \<times> call list" where
  "dispatchAll x s root [] h = (Done, h)"
| "dispatchAll x s root (c # cs) h =
     (case dispatch x s root c h of
        (Done, h1) \<Rightarrow> dispatchAll x s root cs h1
      | (Failed err, h1) \<Rightarrow> (Failed err, h1)
      | (Panic, h1) \<Rightarrow> (Panic, h1))"

text \<open>The values of the map, in the order the runtime ranges over its keys.\<close>

definition ranged :: "ext \<Rightarrow> (string \<rightharpoonup> Change) \<Rightarrow> Change list" where
  "ranged x changes = List.map_filter changes (range_order x changes)"

definition poll :: "ext \<Rightarrow> Sync \<Rightarrow> string \<Rightarrow> call list \<Rightarrow> outcome \<times> call list" where
  "poll x s root h =
     (case buildJoin x s h of
        (Inl err, h1) \<Rightarrow> (Failed err, h1)
      | (Inr changes, h1) \<Rightarrow> dispatchAll x s root (ranged x changes) h1)"

section \<open>The revision in main.go\<close>

text \<open>
  \<open>main.go\<close> holds an earlier revision: it has its own Gerrit types, builds its URLs
  from \<open>Host\<close> and \<open>Owner\<close>, and its \<open>syncComments\<close> only logs the messages. Its
  \<open>git\<close> is the same function as above. Of its \<open>run\<close>, the two loops that build the map
  and the \<open>switch\<close> of the last loop are modelled; its names carry the suffix \<open>_main\<close>
  where they would clash.
\<close>

record Sync_main =
  Host :: string
  Owner :: string
  AuthToken_main :: string

record GerritRevision =
  gr_Ref :: string

record GerritChange =
  gc_Project :: string
  gc_ID :: string
  gc_Revision :: string
  gc_Revisions :: "(string \<times> GerritRevision) list"
  gc_Subject :: string

record Change_main =
  GerritChange :: "GerritChange option"
  PullRequest_main :: "PullRequest option"

text \<open>The method \<open>Ref\<close> of \<open>GerritChange\<close>.\<close>

definition gc_Ref :: "GerritChange \<Rightarrow> string" where
  "gc_Ref c = (case map_of (gc_Revisions c) (gc_Revision c) of None \<Rightarrow> [] | Some r \<Rightarrow> gr_Ref r)"

definition gitHub_url :: "Sync_main \<Rightarrow> string \<Rightarrow> string" where
  "gitHub_url s path = ''https://'' @ AuthToken_main s @ ''@api.github.com/'' @ path"

definition clone_main :: "ext \<Rightarrow> Sync_main \<Rightarrow> string \<Rightarrow> string \<Rightarrow> call list \<Rightarrow> string option \<times> call list" where
  "clone_main x s dir project h =
     (let h1 = h @ [Stat dir] in
      case os_Stat x h dir of
        StatErr err \<Rightarrow> (Some err, h1)
      | StatOK isDir \<Rightarrow>
          if \<not> isDir then (Some (''clone destination is not a directory: '' @ dir), h1)
          else (case git x dir [''checkout'', ''master''] h1 of
                  (Some err, h2) \<Rightarrow> (None, h2)
                | (None, h2) \<Rightarrow> git x dir [''pull''] h2)
      | StatNotExist \<Rightarrow>
          (case os_MkdirAll x h1 dir of
             Some err \<Rightarrow> (Some err, h1 @ [MkdirAll dir])
           | None \<Rightarrow>
               (let h2 = h1 @ [MkdirAll dir];
                    url = ''https://'' @ Host s @ ''.googlesource.com/'' @ project in
                case git x dir [''clone'', url, dir] h2 of
                  (Some err, h3) \<Rightarrow> (Some err, h3 @ [RemoveAll dir])
                | (None, h3) \<Rightarrow> git x dir [''checkout'', ''master''] h3)))"

definition syncBranch_reset_main :: "ext \<Rightarrow> Sync_main \<Rightarrow> string \<Rightarrow> GerritChange \<Rightarrow> call list \<Rightarrow> string option \<times> call list" where
  "syncBranch_reset_main x s dir c h =
     (let src = ''https://'' @ Host s @ ''.googlesource.com/'' @ gc_Project c in
      case git x dir [''fetch'', src, gc_Ref c] h of
        (Some err, h1) \<Rightarrow> (Some err, h1)
      | (None, h1) \<Rightarrow>
          (case git x dir [''reset'', ''--hard'', ''FETCH_HEAD''] h1 of
             (Some err, h2) \<Rightarrow> (Some err, h2)
           | (None, h2) \<Rightarrow>
               (let dest = ''https://'' @ AuthToken_main s @ ''@github.com/'' @ Owner s @ ''/'' @ gc_Project c
                in git x dir [''push'', ''-f'', dest, gc_ID c] h2)))"

definition syncBranch_main :: "ext \<Rightarrow> Sync_main \<Rightarrow> string \<Rightarrow> GerritChange \<Rightarrow> call list \<Rightarrow> string option \<times> call list" where
  "syncBranch_main x s dir c h =
     (case clone_main x s dir (gc_Project c) h of
        (Some err, h1) \<Rightarrow> (Some err, h1)
      | (None, h1) \<Rightarrow>
          (case git x dir [''checkout'', gc_ID c] h1 of
             (Some err, h2) \<Rightarrow>
               (case git x dir [''checkout'', ''-b'', gc_ID c] h2 of
                  (Some err2, h3) \<Rightarrow> (Some err, h3)
                | (None, h3) \<Rightarrow> syncBranch_reset_main x s dir c h3)
           | (None, h2) \<Rightarrow> syncBranch_reset_main x s dir c h2))"

definition deleteBranch_main :: "ext \<Rightarrow> Sync_main \<Rightarrow> string \<Rightarrow> string \<Rightarrow> string \<Rightarrow> call list \<Rightarrow> string option \<times> call list" where
  "deleteBranch_main x s dir repo id' h =
     (case clone_main x s dir repo h of
        (Some err, h1) \<Rightarrow> (Some err, h1)
      | (None, h1) \<Rightarrow>
          (let dest = ''https://'' @ AuthToken_main s @ ''@github.com/'' @ Owner s @ ''/'' @ repo in
           case git x dir [''push'', ''--delete'', dest, id'] h1 of
             (Some err, h2) \<Rightarrow> (Some err, h2)
           | (None, h2) \<Rightarrow> (None, snd (git x dir [''branch'', ''-D'', id'] h2))))"

definition createPullRequest_main :: "ext \<Rightarrow> Sync_main \<Rightarrow> GerritChange \<Rightarrow> call list \<Rightarrow> string option \<times> call list" where
  "createPullRequest_main x s gc h =
     (let payload = NewPull (gc_Subject gc)
            ''Automatically created pull request. Do not review.'' (gc_ID gc) ''master'';
          url = gitHub_url s (''repos/'' @ Owner s @ ''/'' @ gc_Project gc @ ''/pulls'')
      in (github_post x h url payload, h @ [GitHubPost url payload]))"

definition closePullRequest_main :: "ext \<Rightarrow> Sync_main \<Rightarrow> PullRequest \<Rightarrow> call list \<Rightarrow> string option \<times> call list" where
  "closePullRequest_main x s pr h =
     (let payload = SetState ''closed'';
          url = gitHub_url s (''repos/'' @ Repo_Name (Head pr) @ ''/pulls/'' @ Sprint x (Number pr))
      in (github_post x h url payload, h @ [GitHubPost url payload]))"

text \<open>The loop of \<open>syncComments\<close> in \<open>main.go\<close>: the message is logged, nothing is posted.\<close>

fun relay_main :: "GitHubStatus list \<Rightarrow> call list \<Rightarrow> call list" where
  "relay_main [] h = h"
| "relay_main (stat # statuses) h =
     (if Context stat \<noteq> ''continuous-integration/travis-ci/pr'' then relay_main statuses h
      else if State stat \<noteq> ''success'' \<and> State stat \<noteq> ''failure'' then relay_main statuses h
      else relay_main statuses (h @ [Log (Description stat @ '': '' @ Target stat)]))"

definition syncComments_main :: "ext \<Rightarrow> Sync_main \<Rightarrow> Change_main \<Rightarrow> call list \<Rightarrow> outcome \<times> call list" where
  "syncComments_main x s c h =
     (case PullRequest_main c of
        None \<Rightarrow> (Panic, h)
      | Some pr \<Rightarrow>
          (let url = gitHub_url s
                 (''repos/'' @ Repo_Name (Head pr) @ ''/commits/'' @ SHA (Head pr) @ ''/statuses'');
               h1 = h @ [GitHubGet url] in
           case github_statuses x h url of
             Inl err \<Rightarrow> (Failed err, h1)
           | Inr statuses \<Rightarrow> (Done, relay_main statuses h1)))"

definition joinChanges_main :: "GerritChange list \<Rightarrow> (string \<rightharpoonup> Change_main) \<Rightarrow> (string \<rightharpoonup> Change_main)" where
  "joinChanges_main gChanges changes =
     fold (\<lambda>gc m. m(gc_ID gc \<mapsto> \<lparr>GerritChange = Some gc, PullRequest_main = None\<rparr>)) gChanges changes"

definition joinPullRequest_main :: "PullRequest \<Rightarrow> (string \<rightharpoonup> Change_main) \<Rightarrow> (string \<rightharpoonup> Change_main)" where
  "joinPullRequest_main pr changes =
     (if \<not> isGerritChange (Ref (Head pr)) then changes
      else case changes (Ref (Head pr)) of
             None \<Rightarrow> changes(Ref (Head pr) \<mapsto> \<lparr>GerritChange = None, PullRequest_main = Some pr\<rparr>)
           | Some c \<Rightarrow> changes(Ref (Head pr) \<mapsto> c\<lparr>PullRequest_main := Some pr\<rparr>))"

definition joinPullRequests_main :: "PullRequest list \<Rightarrow> (string \<rightharpoonup> Change_main) \<Rightarrow> (string \<rightharpoonup> Change_main)" where
  "joinPullRequests_main prs changes = fold joinPullRequest_main prs changes"

definition dispatch_main :: "ext \<Rightarrow> Sync_main \<Rightarrow> string \<Rightarrow> Change_main \<Rightarrow> call list \<Rightarrow> outcome \<times> call list" where
  "dispatch_main x s root c h =
     (case (PullRequest_main c, GerritChange c) of
        (None, Some gc) \<Rightarrow>
          (let h0 = h @ [Log (''Gerrit change '' @ gc_ID gc @
                            '' needs corresponding pull request. Creating one.'')];
               dir = filepath_Join x root (gc_Project gc) in
           case syncBranch_main x s dir gc h0 of
             (Some err, h1) \<Rightarrow> (Failed err, h1)
           | (None, h1) \<Rightarrow>
               (case createPullRequest_main x s gc h1 of
                  (Some err, h2) \<Rightarrow> (Failed err, h2)
                | (None, h2) \<Rightarrow> (Done, h2)))
      | (Some pr, Some gc) \<Rightarrow>
          (if SHA (Head pr) = gc_Revision gc then
             syncComments_main x s c
               (h @ [Log (''Gerrit change '' @ gc_ID gc @ '' already synced with pull request.'')])
           else
             (let h0 = h @ [Log (''Gerrit change '' @ gc_ID gc @
                               '' needs sync with pull request. Syncing.'')];
                  dir = filepath_Join x root (gc_Project gc) in
              case syncBranch_main x s dir gc h0 of
                (Some err, h1) \<Rightarrow> (Failed err, h1)
              | (None, h1) \<Rightarrow> (Done, h1)))
      | (Some pr, None) \<Rightarrow>
          (let h0 = h @ [Log (''Pull request '' @ Sprint x (Number pr) @
                            '' has no corresponding Gerrit change. Closing.'')] in
           case syncComments_main x s c h0 of
             (Failed err, h1) \<Rightarrow> (Failed err, h1)
           | (Panic, h1) \<Rightarrow> (Panic, h1)
           | (Done, h1) \<Rightarrow>
               (case closePullRequest_main x s pr h1 of
                  (Some err, h2) \<Rightarrow> (Failed err, h2)
                | (None, h2) \<Rightarrow>
                    (let parts = SplitN2 (Repo_Name (Head pr)) in
                     if length parts \<le> 1 then (Panic, h2)
                     else
                       (let repo = parts ! 1;
                            dir = filepath_Join x root repo in
                        case deleteBranch_main x s dir repo (Ref (Head pr)) h2 of
                          (Some err, h3) \<Rightarrow> (Failed err, h3)
                        | (None, h3) \<Rightarrow> (Done, h3)))))
      | (None, None) \<Rightarrow> (Done, h))"

section \<open>Actions\<close>

text \<open>
  The four actions a joined record can call for, and the classification by which sides
  are present and whether the pull request's head is the change's current revision
  (following the design: a record with neither side has no action).
\<close>

datatype Action = CreateAndOpen | UpdateAndRelay | CloseAndDelete | NoOp

definition classify :: "bool \<Rightarrow> bool \<Rightarrow> bool \<Rightarrow> Action option" where
  "classify source pull same =
     (if source \<and> \<not> pull then Some CreateAndOpen
      else if source \<and> pull then (if same then Some NoOp else Some UpdateAndRelay)
      else if pull then Some CloseAndDelete
      else None)"

definition same_sha :: "Change \<Rightarrow> bool" where
  "same_sha c =
     (case (PullRequest c, ChangeInfo c) of
        (Some pr, Some ci) \<Rightarrow> SHA (Head pr) = CurrentRevision ci
      | _ \<Rightarrow> False)"

definition action_of :: "Change \<Rightarrow> Action option" where
  "action_of c = classify (ChangeInfo c \<noteq> None) (PullRequest c \<noteq> None) (same_sha c)"

section \<open>Reading a history\<close>

fun review_of :: "call \<Rightarrow> ReviewInput option" where
  "review_of (SetReview id' revision input) = Some input"
| "review_of _ = None"

text \<open>The reviews posted to Gerrit, in order.\<close>

definition reviews :: "call list \<Rightarrow> ReviewInput list" where
  "reviews h = List.map_filter review_of h"

fun is_Post :: "call \<Rightarrow> bool" where
  "is_Post (GitHubPost url p) = True"
| "is_Post _ = False"

fun is_Get :: "call \<Rightarrow> bool" where
  "is_Get (GitHubGet url) = True"
| "is_Get _ = False"

fun is_Review :: "call \<Rightarrow> bool" where
  "is_Review (SetReview id' revision input) = True"
| "is_Review _ = False"

text \<open>Calls that stay on the machine: git commands and the file system.\<close>

fun is_local :: "call \<Rightarrow> bool" where
  "is_local (Git dir args) = True"
| "is_local (Stat dir) = True"
| "is_local (MkdirAll dir) = True"
| "is_local (RemoveAll dir) = True"
| "is_local _ = False"

fun is_Log :: "call \<Rightarrow> bool" where
  "is_Log (Log line) = True"
| "is_Log _ = False"

text \<open>A status the relay retains, and the message it builds from it.\<close>

definition retained :: "GitHubStatus \<Rightarrow> bool" where
  "retained stat \<longleftrightarrow>
     Context stat = ''continuous-integration/travis-ci/pr'' \<and>
     (State stat = ''success'' \<or> State stat = ''failure'')"

definition message_of :: "GitHubStatus \<Rightarrow> string" where
  "message_of stat = Description stat @ '': '' @ Target stat"

definition commented :: "ChangeInfo \<Rightarrow> string \<Rightarrow> bool" where
  "commented ci msg = list_ex (\<lambda>m. Contains (Message m) msg) (Messages ci)"

text \<open>What the fetches of a pass that starts at history \<open>h\<close> return.\<close>

definition fetchedChanges :: "ext \<Rightarrow> call list \<Rightarrow> ChangeInfo list" where
  "fetchedChanges x h = (case gerrit_QueryChanges x h of Inl err \<Rightarrow> [] | Inr cis \<Rightarrow> cis)"

fun fetchedPulls :: "ext \<Rightarrow> Sync \<Rightarrow> string list \<Rightarrow> call list \<Rightarrow> PullRequest list" where
  "fetchedPulls x s [] h = []"
| "fetchedPulls x s (repo # repos) h =
     (case pullRequests x s repo h of
        (Inl err, h1) \<Rightarrow> []
      | (Inr prs, h1) \<Rightarrow> prs @ fetchedPulls x s repos h1)"

definition fetchedPullRequests :: "ext \<Rightarrow> Sync \<Rightarrow> call list \<Rightarrow> PullRequest list" where
  "fetchedPullRequests x s h =
     (case githubRepos x s (h @ [QueryChanges]) of
        (Inl err, h2) \<Rightarrow> []
      | (Inr repos, h2) \<Rightarrow> fetchedPulls x s repos h2)"

definition statuses_url :: "Sync \<Rightarrow> PullRequest \<Rightarrow> string" where
  "statuses_url s pr =
     github_url s (''repos/'' @ Repo_Name (Head pr) @ ''/commits/'' @ SHA (Head pr) @ ''/statuses'')"

definition fetchedStatuses :: "ext \<Rightarrow> Sync \<Rightarrow> PullRequest \<Rightarrow> call list \<Rightarrow> GitHubStatus list" where
  "fetchedStatuses x s pr h =
     (case github_statuses x h (statuses_url s pr) of Inl err \<Rightarrow> [] | Inr statuses \<Rightarrow> statuses)"

section \<open>A concrete outside world\<close>

text \<open>
  Decimal digits, as \<open>fmt.Sprint\<close> writes an int, and a world in which every call
  succeeds: Gerrit and GitHub return fixed lists and a directory exists once it has been
  made.
\<close>

definition digit :: "nat \<Rightarrow> char" where
  "digit n = ''0123456789'' ! n"

function decimal :: "nat \<Rightarrow> string" where
  "decimal n = (if n < 10 then [digit n] else decimal (n div 10) @ [digit (n mod 10)])"
  by pat_completeness auto
termination
  by (relation "measure (\<lambda>n. n)") auto

definition Sprint_int :: "int \<Rightarrow> string" where
  "Sprint_int i = (if i < 0 then ''-'' @ decimal (nat (- i)) else decimal (nat i))"

text \<open>
  \<open>filepath.Join\<close> on two elements: an empty element is dropped and the others are
  joined with a slash. Go then cleans the result (doubled slashes, dot and dot-dot
  components, a trailing slash); that step is left out, so this is \<open>filepath.Join\<close>
  on elements that are empty or already clean, as every name used below is.
\<close>

definition path_join :: "string \<Rightarrow> string \<Rightarrow> string" where
  "path_join a b = (if a = [] then b else if b = [] then a else a @ ''/'' @ b)"

definition quiet :: "ChangeInfo list \<Rightarrow> string list \<Rightarrow> (string \<Rightarrow> PullRequest list)
    \<Rightarrow> (string \<Rightarrow> GitHubStatus list) \<Rightarrow> string list \<Rightarrow> ext" where
  "quiet cis repos pulls statuses order =
     \<lparr>exec_git = (\<lambda>h dir args. CmdOK []),
      os_Stat = (\<lambda>h dir. if MkdirAll dir \<in> set h then StatOK True else StatNotExist),
      os_MkdirAll = (\<lambda>h dir. None),
      gerrit_QueryChanges = (\<lambda>h. Inr cis),
      gerrit_SetReview = (\<lambda>h id' revision input. None),
      github_repos = (\<lambda>h url. Inr repos),
      github_pulls = (\<lambda>h url. Inr (pulls url)),
      github_statuses = (\<lambda>h url. Inr (statuses url)),
      github_post = (\<lambda>h url p. None),
      filepath_Join = path_join,
      Sprint = Sprint_int,
      range_order = (\<lambda>m. order)\<rparr>"

text \<open>The same world, but git fails on the given argument lists.\<close>

definition failing_git :: "string list list \<Rightarrow> ext \<Rightarrow> ext" where
  "failing_git bad x =
     x\<lparr>exec_git := (\<lambda>h dir args.
          if args \<in> set bad then CmdFail ''exit status 1'' ''error: no such branch'' else CmdOK [])\<rparr>"

definition sync0 :: Sync where
  "sync0 = \<lparr>GerritURL = ''https://g'', GitHubOwner = ''o'', AuthToken = ''u:t''\<rparr>"

definition sync0_main :: Sync_main where
  "sync0_main = \<lparr>Host = ''g'', Owner = ''o'', AuthToken_main = ''u:t''\<rparr>"

definition pull0 :: "int \<Rightarrow> string \<Rightarrow> string \<Rightarrow> string \<Rightarrow> PullRequest" where
  "pull0 n ref sha repo =
     \<lparr>Number = n,
      Head = \<lparr>Ref = ref, SHA = sha, Repo_Name = repo\<rparr>,
      Base = \<lparr>Ref = ''master'', SHA = [], Repo_Name = repo\<rparr>\<rparr>"

definition change0 :: "string \<Rightarrow> string \<Rightarrow> string \<Rightarrow> ChangeMessageInfo list \<Rightarrow> ChangeInfo" where
  "change0 project id' revision msgs =
     \<lparr>Project = project, ChangeID = id', CurrentRevision = revision,
      Revisions = [(revision, \<lparr>rev_Ref = ''refs/changes/1/1''\<rparr>)],
      Subject = ''subject'', Messages = msgs\<rparr>"

definition gchange0 :: "string \<Rightarrow> string \<Rightarrow> string \<Rightarrow> GerritChange" where
  "gchange0 project id' revision =
     \<lparr>gc_Project = project, gc_ID = id', gc_Revision = revision,
      gc_Revisions = [(revision, \<lparr>gr_Ref = ''refs/changes/1/1''\<rparr>)],
      gc_Subject = ''subject''\<rparr>"

definition status0 :: "string \<Rightarrow> string \<Rightarrow> string \<Rightarrow> GitHubStatus" where
  "status0 state description target =
     \<lparr>Context = ''continuous-integration/travis-ci/pr'', State = state,
      Description = description, Target = target\<rparr>"

section \<open>The feedback relay\<close>

lemma reviews_map_SetReview: "reviews (map (\<lambda>st. SetReview i r (f st)) ps) = map f ps"
  by (induction ps) (simp_all add: reviews_def map_filter_def)

lemma reviews_simps [simp]:
  "reviews [] = []"
  "reviews (SetReview i r input # h) = input # reviews h"
  "reviews (Log l # h) = reviews h"
  "reviews (Git d a # h) = reviews h"
  "reviews (Stat d # h) = reviews h"
  "reviews (MkdirAll d # h) = reviews h"
  "reviews (RemoveAll d # h) = reviews h"
  "reviews (QueryChanges # h) = reviews h"
  "reviews (GitHubGet u # h) = reviews h"
  "reviews (GitHubPost u p # h) = reviews h"
  by (simp_all add: reviews_def map_filter_def)

text \<open>
  The calls of the loop: one review for each retained status whose message no fetched
  comment contains, in order, up to the first review that fails.
\<close>

lemma relay_calls:
  "relay x (Some ci) statuses h = (r, h') \<Longrightarrow>
   \<exists>ps. prefix ps (filter (\<lambda>st. retained st \<and> \<not> commented ci (message_of st)) statuses) \<and>
        h' = h @ map (\<lambda>st. SetReview (ChangeID ci) (CurrentRevision ci)
                        \<lparr>ri_Message = message_of st,
                         ri_Labels = (if State st = ''failure'' then [(''Code-Review'', - 1)] else [])\<rparr>) ps \<and>
        (r = Done \<longrightarrow> ps = filter (\<lambda>st. retained st \<and> \<not> commented ci (message_of st)) statuses) \<and>
        r \<noteq> Panic"
proof (induction statuses arbitrary: h)
  case Nil
  then show ?case by auto
next
  case (Cons st statuses)
  let ?P = "\<lambda>st. retained st \<and> \<not> commented ci (message_of st)"
  let ?mk = "\<lambda>st. SetReview (ChangeID ci) (CurrentRevision ci)
                        \<lparr>ri_Message = message_of st,
                         ri_Labels = (if State st = ''failure'' then [(''Code-Review'', - 1)] else [])\<rparr>"
  show ?case
  proof (cases "?P st")
    case False
    then have "relay x (Some ci) (st # statuses) h = relay x (Some ci) statuses h"
      by (auto simp: retained_def commented_def message_of_def Let_def)
    with Cons.prems Cons.IH [of h] False show ?thesis
      by auto
  next
    case True
    show ?thesis
    proof (cases "gerrit_SetReview x h (ChangeID ci) (CurrentRevision ci)
                    \<lparr>ri_Message = message_of st,
                     ri_Labels = (if State st = ''failure'' then [(''Code-Review'', - 1)] else [])\<rparr>")
      case None
      then have "relay x (Some ci) (st # statuses) h = relay x (Some ci) statuses (h @ [?mk st])"
        using True by (auto simp: retained_def commented_def message_of_def Let_def)
      with Cons.prems have "relay x (Some ci) statuses (h @ [?mk st]) = (r, h')"
        by simp
      from Cons.IH [OF this] obtain ps where
        ps: "prefix ps (filter ?P statuses)" "h' = (h @ [?mk st]) @ map ?mk ps"
            "r = Done \<longrightarrow> ps = filter ?P statuses" "r \<noteq> Panic"
        by blast
      show ?thesis
        by (rule exI [of _ "st # ps"]) (use ps True in simp)
    next
      case (Some err)
      then have "relay x (Some ci) (st # statuses) h = (Failed err, h @ [?mk st])"
        using True by (auto simp: retained_def commented_def message_of_def Let_def)
      with Cons.prems have "r = Failed err" "h' = h @ [?mk st]"
        by simp_all
      then show ?thesis
        by (intro exI [of _ "[st]"]) (use True in simp)
    qed
  qed
qed

lemma syncComments_calls:
  assumes "PullRequest c = Some pr" and "ChangeInfo c = Some ci"
    and "syncComments x s c h = (r, h')"
  shows "\<exists>ps. prefix ps (filter (\<lambda>st. retained st \<and> \<not> commented ci (message_of st))
                            (fetchedStatuses x s pr h)) \<and>
        h' = h @ GitHubGet (statuses_url s pr) #
               map (\<lambda>st. SetReview (ChangeID ci) (CurrentRevision ci)
                        \<lparr>ri_Message = message_of st,
                         ri_Labels = (if State st = ''failure'' then [(''Code-Review'', - 1)] else [])\<rparr>) ps \<and>
        (r = Done \<longrightarrow> ps = filter (\<lambda>st. retained st \<and> \<not> commented ci (message_of st))
                            (fetchedStatuses x s pr h)) \<and>
        r \<noteq> Panic"
proof (cases "github_statuses x h (statuses_url s pr)")
  case (Inl err)
  with assms have "h' = h @ [GitHubGet (statuses_url s pr)]" "r = Failed err"
    by (simp_all add: syncComments_def statuses_url_def Let_def)
  then show ?thesis
    by (intro exI [of _ "[]"]) simp
next
  case (Inr statuses)
  with assms have "relay x (Some ci) statuses (h @ [GitHubGet (statuses_url s pr)]) = (r, h')"
    by (simp add: syncComments_def statuses_url_def Let_def)
  from relay_calls [OF this] Inr show ?thesis
    by (simp add: fetchedStatuses_def)
qed

text \<open>
  C7. The reviews that \<open>syncComments\<close> posts match, one to one and in order, the leading
  retained statuses whose message no fetched comment contains. The review for a status
  in state failure carries the label Code-Review with score -1 and nothing else; the
  review for a status in state success carries no label.
\<close>

theorem C7_failure_label:
  assumes "PullRequest c = Some pr" and "ChangeInfo c = Some ci"
    and "syncComments x s c h = (r, h')"
  shows "\<exists>ps. prefix ps (filter (\<lambda>st. retained st \<and> \<not> commented ci (message_of st))
                            (fetchedStatuses x s pr h)) \<and>
          list_all2 (\<lambda>st input. ri_Message input = message_of st \<and>
                       (State st = ''failure'' \<longrightarrow> ri_Labels input = [(''Code-Review'', - 1)]) \<and>
                       (State st = ''success'' \<longrightarrow> ri_Labels input = []))
            ps (reviews (drop (length h) h'))"
proof -
  from syncComments_calls [OF assms] obtain ps where
    ps: "prefix ps (filter (\<lambda>st. retained st \<and> \<not> commented ci (message_of st))
                            (fetchedStatuses x s pr h))"
    and h': "h' = h @ GitHubGet (statuses_url s pr) #
               map (\<lambda>st. SetReview (ChangeID ci) (CurrentRevision ci)
                        \<lparr>ri_Message = message_of st,
                         ri_Labels = (if State st = ''failure'' then [(''Code-Review'', - 1)] else [])\<rparr>) ps"
    by blast
  have "reviews (drop (length h) h') =
          map (\<lambda>st. \<lparr>ri_Message = message_of st,
                     ri_Labels = (if State st = ''failure'' then [(''Code-Review'', - 1)] else [])\<rparr>) ps"
    by (simp add: h' reviews_map_SetReview)
  then have "list_all2 (\<lambda>st input. ri_Message input = message_of st \<and>
                       (State st = ''failure'' \<longrightarrow> ri_Labels input = [(''Code-Review'', - 1)]) \<and>
                       (State st = ''success'' \<longrightarrow> ri_Labels input = []))
            ps (reviews (drop (length h) h'))"
    by (simp add: list_all2_conv_all_nth)
  with ps show ?thesis by blast
qed

theorem C7_failure_label_witness:
  "reviews (snd (syncComments
       (quiet [] [] (\<lambda>u. [])
              (\<lambda>u. [status0 ''failure'' ''tests failed'' ''http://ci/42'',
                    status0 ''success'' ''ok'' ''http://ci/43'']) [])
       sync0
       \<lparr>ChangeInfo = Some (change0 ''a'' ''I1'' ''r'' []),
        PullRequest = Some (pull0 7 ''I1'' ''r'' ''o/a'')\<rparr> []))
   = [\<lparr>ri_Message = ''tests failed: http://ci/42'', ri_Labels = [(''Code-Review'', - 1)]\<rparr>,
      \<lparr>ri_Message = ''ok: http://ci/43'', ri_Labels = []\<rparr>] \<and>
   (\<exists>ps. prefix ps (filter (\<lambda>st. retained st \<and> \<not> commented (change0 ''a'' ''I1'' ''r'' []) (message_of st))
                     [status0 ''failure'' ''tests failed'' ''http://ci/42'',
                      status0 ''success'' ''ok'' ''http://ci/43'']) \<and>
          list_all2 (\<lambda>st input. ri_Message input = message_of st \<and>
                       (State st = ''failure'' \<longrightarrow> ri_Labels input = [(''Code-Review'', - 1)]) \<and>
                       (State st = ''success'' \<longrightarrow> ri_Labels input = []))
            ps [\<lparr>ri_Message = ''tests failed: http://ci/42'', ri_Labels = [(''Code-Review'', - 1)]\<rparr>,
                \<lparr>ri_Message = ''ok: http://ci/43'', ri_Labels = []\<rparr>])"
proof -
  let ?x = "quiet [] [] (\<lambda>u. [])
              (\<lambda>u. [status0 ''failure'' ''tests failed'' ''http://ci/42'',
                    status0 ''success'' ''ok'' ''http://ci/43'']) []"
  let ?c = "\<lparr>ChangeInfo = Some (change0 ''a'' ''I1'' ''r'' []),
             PullRequest = Some (pull0 7 ''I1'' ''r'' ''o/a'')\<rparr>"
  have run: "syncComments ?x sync0 ?c [] =
     (Done, [GitHubGet ''https://u:t@api.github.com/repos/o/a/commits/r/statuses'',
             SetReview ''I1'' ''r''
               \<lparr>ri_Message = ''tests failed: http://ci/42'', ri_Labels = [(''Code-Review'', - 1)]\<rparr>,
             SetReview ''I1'' ''r'' \<lparr>ri_Message = ''ok: http://ci/43'', ri_Labels = []\<rparr>])"
    by (simp add: syncComments_def quiet_def path_join_def sync0_def pull0_def change0_def status0_def github_url_def)
  have fetched: "fetchedStatuses ?x sync0 (pull0 7 ''I1'' ''r'' ''o/a'') [] =
      [status0 ''failure'' ''tests failed'' ''http://ci/42'', status0 ''success'' ''ok'' ''http://ci/43'']"
    by (simp add: fetchedStatuses_def quiet_def path_join_def)
  from C7_failure_label [of ?c "pull0 7 ''I1'' ''r'' ''o/a''" "change0 ''a'' ''I1'' ''r'' []", OF _ _ run]
  show ?thesis
    by (simp add: run fetched)
qed

text \<open>
  When the relay completes, the messages it posts are the messages of the retained
  statuses that no fetched comment contains, once for each such status; a message that
  a fetched comment contains is never posted; and when every retained message is
  contained in a fetched comment nothing is posted.
\<close>

lemma syncComments_posts_uncommented:
  assumes "PullRequest c = Some pr" and "ChangeInfo c = Some ci"
    and "syncComments x s c h = (Done, h')"
  shows "map ri_Message (reviews (drop (length h) h')) =
           filter (\<lambda>msg. \<not> commented ci msg)
             (map message_of (filter retained (fetchedStatuses x s pr h)))"
proof -
  from syncComments_calls [OF assms] have
    "h' = h @ GitHubGet (statuses_url s pr) #
               map (\<lambda>st. SetReview (ChangeID ci) (CurrentRevision ci)
                        \<lparr>ri_Message = message_of st,
                         ri_Labels = (if State st = ''failure'' then [(''Code-Review'', - 1)] else [])\<rparr>)
                 (filter (\<lambda>st. retained st \<and> \<not> commented ci (message_of st))
                            (fetchedStatuses x s pr h))"
    by auto
  then show ?thesis
    by (simp add: reviews_map_SetReview filter_map comp_def)
qed

lemma syncComments_never_reposts:
  assumes "PullRequest c = Some pr" and "ChangeInfo c = Some ci"
    and "syncComments x s c h = (r, h')"
    and "input \<in> set (reviews (drop (length h) h'))"
  shows "\<not> commented ci (ri_Message input)"
proof -
  from syncComments_calls [OF assms(1-3)] obtain ps where
    ps: "prefix ps (filter (\<lambda>st. retained st \<and> \<not> commented ci (message_of st))
                            (fetchedStatuses x s pr h))"
    and h': "h' = h @ GitHubGet (statuses_url s pr) #
               map (\<lambda>st. SetReview (ChangeID ci) (CurrentRevision ci)
                        \<lparr>ri_Message = message_of st,
                         ri_Labels = (if State st = ''failure'' then [(''Code-Review'', - 1)] else [])\<rparr>) ps"
    by blast
  from assms(4) obtain st where "st \<in> set ps" "ri_Message input = message_of st"
    by (auto simp: h' reviews_map_SetReview)
  moreover from ps have "set ps \<subseteq> set (filter (\<lambda>st. retained st \<and> \<not> commented ci (message_of st))
                            (fetchedStatuses x s pr h))"
    by (rule set_mono_prefix)
  ultimately show ?thesis by auto
qed

lemma syncComments_silent_when_commented:
  assumes "PullRequest c = Some pr" and "ChangeInfo c = Some ci"
    and "\<forall>st \<in> set (fetchedStatuses x s pr h). retained st \<longrightarrow> commented ci (message_of st)"
  shows "reviews (drop (length h) (snd (syncComments x s c h))) = []"
proof -
  obtain r h' where run: "syncComments x s c h = (r, h')"
    by fastforce
  from syncComments_calls [OF assms(1,2) run] obtain ps where
    ps: "prefix ps (filter (\<lambda>st. retained st \<and> \<not> commented ci (message_of st))
                            (fetchedStatuses x s pr h))"
    and h': "h' = h @ GitHubGet (statuses_url s pr) #
               map (\<lambda>st. SetReview (ChangeID ci) (CurrentRevision ci)
                        \<lparr>ri_Message = message_of st,
                         ri_Labels = (if State st = ''failure'' then [(''Code-Review'', - 1)] else [])\<rparr>) ps"
    by blast
  from assms(3) have "filter (\<lambda>st. retained st \<and> \<not> commented ci (message_of st))
                            (fetchedStatuses x s pr h) = []"
    by (auto simp: filter_empty_conv)
  with ps have "ps = []" by simp
  then show ?thesis by (simp add: run h')
qed

text \<open>
  C4. The comments are read once, with the change, before the loop; a review the loop
  posts is not added to them. Two retained statuses with the same description and
  target (GitHub keeps every status a build reports) are therefore both relayed in one
  pass: the same message is posted twice.
\<close>

theorem C4_duplicate_status_posted_twice:
  "reviews (snd (syncComments
       (quiet [] [] (\<lambda>u. [])
              (\<lambda>u. [status0 ''success'' ''The Travis CI build passed'' ''http://ci/42'',
                    status0 ''success'' ''The Travis CI build passed'' ''http://ci/42'']) [])
       sync0
       \<lparr>ChangeInfo = Some (change0 ''a'' ''I1'' ''r'' []),
        PullRequest = Some (pull0 7 ''I1'' ''r'' ''o/a'')\<rparr> []))
   = [\<lparr>ri_Message = ''The Travis CI build passed: http://ci/42'', ri_Labels = []\<rparr>,
      \<lparr>ri_Message = ''The Travis CI build passed: http://ci/42'', ri_Labels = []\<rparr>]"
  by (simp add: syncComments_def quiet_def path_join_def sync0_def pull0_def change0_def status0_def github_url_def)

section \<open>Branch synchronisation\<close>

text \<open>
  C8. Once the clone step has succeeded: when the checkout of the change's branch
  succeeds, or fails and the fallback \<open>checkout -b\<close> succeeds, \<open>syncBranch\<close> goes on to
  fetch, reset and push, and its result is theirs. Only when the checkout and the
  fallback both fail does it return at this step; the error is then the one of the
  first checkout, whose text ends with the output captured from that command.
\<close>

theorem C8_checkout_fallback:
  assumes "clone x s dir (Project c) h = (None, h1)"
  shows "(\<forall>out. exec_git x h1 dir [''checkout'', ChangeID c] = CmdOK out \<longrightarrow>
            syncBranch x s dir c h =
              syncBranch_reset x s dir c (h1 @ [Git dir [''checkout'', ChangeID c]])) \<and>
         (\<forall>err out out2.
            exec_git x h1 dir [''checkout'', ChangeID c] = CmdFail err out \<and>
            exec_git x (h1 @ [Git dir [''checkout'', ChangeID c]]) dir [''checkout'', ''-b'', ChangeID c]
              = CmdOK out2 \<longrightarrow>
            syncBranch x s dir c h =
              syncBranch_reset x s dir c
                (h1 @ [Git dir [''checkout'', ChangeID c], Git dir [''checkout'', ''-b'', ChangeID c]])) \<and>
         (\<forall>err out err2 out2.
            exec_git x h1 dir [''checkout'', ChangeID c] = CmdFail err out \<and>
            exec_git x (h1 @ [Git dir [''checkout'', ChangeID c]]) dir [''checkout'', ''-b'', ChangeID c]
              = CmdFail err2 out2 \<longrightarrow>
            syncBranch x s dir c h =
              (Some (''git checkout '' @ ChangeID c @ '': '' @ err @ [CHR 0x0A] @ out),
               h1 @ [Git dir [''checkout'', ChangeID c], Git dir [''checkout'', ''-b'', ChangeID c]]))"
  using assms by (simp add: syncBranch_def git_def)

theorem C8_checkout_fallback_witness:
  "syncBranch (failing_git [[''checkout'', ''I1''], [''checkout'', ''-b'', ''I1'']]
                 (quiet [] [] (\<lambda>u. []) (\<lambda>u. []) []))
     sync0 ''/tmp/a'' (change0 ''a'' ''I1'' ''r'' []) [] =
     (Some (''git checkout I1: exit status 1'' @ [CHR 0x0A] @ ''error: no such branch''),
      [Stat ''/tmp/a'', MkdirAll ''/tmp/a'',
       Git ''/tmp/a'' [''clone'', ''https://g/a'', ''/tmp/a''],
       Git ''/tmp/a'' [''checkout'', ''master''],
       Git ''/tmp/a'' [''checkout'', ''I1''],
       Git ''/tmp/a'' [''checkout'', ''-b'', ''I1'']]) \<and>
   syncBranch (failing_git [[''checkout'', ''I1'']] (quiet [] [] (\<lambda>u. []) (\<lambda>u. []) []))
     sync0 ''/tmp/a'' (change0 ''a'' ''I1'' ''r'' []) [] =
     (None,
      [Stat ''/tmp/a'', MkdirAll ''/tmp/a'',
       Git ''/tmp/a'' [''clone'', ''https://g/a'', ''/tmp/a''],
       Git ''/tmp/a'' [''checkout'', ''master''],
       Git ''/tmp/a'' [''checkout'', ''I1''],
       Git ''/tmp/a'' [''checkout'', ''-b'', ''I1''],
       Git ''/tmp/a'' [''fetch'', ''https://g/a'', ''refs/changes/1/1''],
       Git ''/tmp/a'' [''reset'', ''--hard'', ''FETCH_HEAD''],
       Git ''/tmp/a'' [''push'', ''-f'', ''https://u:t@github.com/o/a'', ''I1'']])"
proof -
  let ?q = "quiet [] [] (\<lambda>u. []) (\<lambda>u. []) []"
  let ?x = "failing_git [[''checkout'', ''I1''], [''checkout'', ''-b'', ''I1'']] ?q"
  let ?y = "failing_git [[''checkout'', ''I1'']] ?q"
  let ?c = "change0 ''a'' ''I1'' ''r'' []"
  let ?h1 = "[Stat ''/tmp/a'', MkdirAll ''/tmp/a'',
       Git ''/tmp/a'' [''clone'', ''https://g/a'', ''/tmp/a''],
       Git ''/tmp/a'' [''checkout'', ''master'']]"
  have cx: "clone ?x sync0 ''/tmp/a'' (Project ?c) [] = (None, ?h1)"
    by (simp add: clone_def git_def failing_git_def quiet_def path_join_def sync0_def change0_def)
  have cy: "clone ?y sync0 ''/tmp/a'' (Project ?c) [] = (None, ?h1)"
    by (simp add: clone_def git_def failing_git_def quiet_def path_join_def sync0_def change0_def)
  from C8_checkout_fallback [OF cx] C8_checkout_fallback [OF cy]
  show ?thesis
    by (simp add: failing_git_def quiet_def path_join_def change0_def sync0_def syncBranch_reset_def git_def
        current_Ref_def)
qed

section \<open>The join\<close>

lemma joinChanges_Nil [simp]: "joinChanges [] m = m"
  by (simp add: joinChanges_def)

lemma joinChanges_snoc:
  "joinChanges (cis @ [ci]) m =
     (joinChanges cis m)(ChangeID ci \<mapsto> \<lparr>ChangeInfo = Some ci, PullRequest = None\<rparr>)"
  by (simp add: joinChanges_def)

lemma joinPullRequests_Nil [simp]: "joinPullRequests [] m = m"
  by (simp add: joinPullRequests_def)

lemma joinPullRequests_snoc:
  "joinPullRequests (prs @ [pr]) m = joinPullRequest pr (joinPullRequests prs m)"
  by (simp add: joinPullRequests_def)

lemma joinPullRequests_append:
  "joinPullRequests (prs @ prs') m = joinPullRequests prs' (joinPullRequests prs m)"
  by (simp add: joinPullRequests_def)

text \<open>The entry under a key: the last change with that id, with no pull request.\<close>

lemma joinChanges_apply:
  "joinChanges cis m k =
     (case find (\<lambda>ci. ChangeID ci = k) (rev cis) of
        None \<Rightarrow> m k
      | Some ci \<Rightarrow> Some \<lparr>ChangeInfo = Some ci, PullRequest = None\<rparr>)"
  by (induction cis rule: rev_induct) (simp_all add: joinChanges_snoc)

text \<open>The last pull request whose head ref is the key and passes the prefix test is
  stored in the entry; the change of the entry is kept.\<close>

lemma joinPullRequests_apply:
  "joinPullRequests prs m k =
     (case find (\<lambda>pr. isGerritChange (Ref (Head pr)) \<and> Ref (Head pr) = k) (rev prs) of
        None \<Rightarrow> m k
      | Some pr \<Rightarrow>
          Some \<lparr>ChangeInfo = (case m k of None \<Rightarrow> None | Some c \<Rightarrow> ChangeInfo c),
                PullRequest = Some pr\<rparr>)"
proof (induction prs rule: rev_induct)
  case Nil
  then show ?case by simp
next
  case (snoc pr prs)
  show ?case
    by (cases "m k")
       (auto simp: joinPullRequests_snoc joinPullRequest_def snoc.IH
             split: option.splits)
qed

lemma dom_joinChanges: "dom (joinChanges cis m) = dom m \<union> ChangeID ` set cis"
proof (induction cis rule: rev_induct)
  case Nil
  show ?case by simp
next
  case (snoc ci cis)
  show ?case
    unfolding joinChanges_snoc dom_fun_upd snoc.IH by auto
qed

lemma dom_joinPullRequest:
  "dom (joinPullRequest pr m) =
     dom m \<union> (if isGerritChange (Ref (Head pr)) then {Ref (Head pr)} else {})"
  by (auto simp: joinPullRequest_def split: option.splits if_splits)

lemma dom_joinPullRequests:
  "dom (joinPullRequests prs m) =
     dom m \<union> {Ref (Head pr) |pr. pr \<in> set prs \<and> isGerritChange (Ref (Head pr))}"
proof (induction prs rule: rev_induct)
  case Nil
  show ?case by simp
next
  case (snoc pr prs)
  show ?case
    unfolding joinPullRequests_snoc dom_joinPullRequest snoc.IH by auto
qed

lemma joinRepos_result:
  "joinRepos x s repos m h = (Inr m', h') \<Longrightarrow> m' = joinPullRequests (fetchedPulls x s repos h) m"
  by (induction repos arbitrary: m h)
     (auto simp: joinPullRequests_append split: prod.splits sum.splits)

lemma buildJoin_result:
  "buildJoin x s h = (Inr m, h') \<Longrightarrow>
   m = joinPullRequests (fetchedPullRequests x s h) (joinChanges (fetchedChanges x h) Map.empty)"
  by (auto simp: buildJoin_def gerritChanges_def fetchedPullRequests_def fetchedChanges_def
           dest: joinRepos_result split: prod.splits sum.splits)

subsection \<open>The same loops in main.go\<close>

lemma joinChanges_main_snoc:
  "joinChanges_main (gcs @ [gc]) m =
     (joinChanges_main gcs m)(gc_ID gc \<mapsto> \<lparr>GerritChange = Some gc, PullRequest_main = None\<rparr>)"
  by (simp add: joinChanges_main_def)

lemma joinPullRequests_main_snoc:
  "joinPullRequests_main (prs @ [pr]) m = joinPullRequest_main pr (joinPullRequests_main prs m)"
  by (simp add: joinPullRequests_main_def)

lemma joinChanges_main_apply:
  "joinChanges_main gcs m k =
     (case find (\<lambda>gc. gc_ID gc = k) (rev gcs) of
        None \<Rightarrow> m k
      | Some gc \<Rightarrow> Some \<lparr>GerritChange = Some gc, PullRequest_main = None\<rparr>)"
  by (induction gcs rule: rev_induct) (simp_all add: joinChanges_main_snoc joinChanges_main_def)

lemma joinPullRequests_main_apply:
  "joinPullRequests_main prs m k =
     (case find (\<lambda>pr. isGerritChange (Ref (Head pr)) \<and> Ref (Head pr) = k) (rev prs) of
        None \<Rightarrow> m k
      | Some pr \<Rightarrow>
          Some \<lparr>GerritChange = (case m k of None \<Rightarrow> None | Some c \<Rightarrow> GerritChange c),
                PullRequest_main = Some pr\<rparr>)"
proof (induction prs rule: rev_induct)
  case Nil
  then show ?case by (simp add: joinPullRequests_main_def)
next
  case (snoc pr prs)
  show ?case
    by (cases "m k")
       (auto simp: joinPullRequests_main_snoc joinPullRequest_main_def snoc.IH
             split: option.splits)
qed

lemma dom_joinChanges_main: "dom (joinChanges_main gcs m) = dom m \<union> gc_ID ` set gcs"
proof (induction gcs rule: rev_induct)
  case Nil
  show ?case by (simp add: joinChanges_main_def)
next
  case (snoc gc gcs)
  show ?case
    unfolding joinChanges_main_snoc dom_fun_upd snoc.IH by auto
qed

lemma dom_joinPullRequest_main:
  "dom (joinPullRequest_main pr m) =
     dom m \<union> (if isGerritChange (Ref (Head pr)) then {Ref (Head pr)} else {})"
  by (auto simp: joinPullRequest_main_def split: option.splits if_splits)

lemma dom_joinPullRequests_main:
  "dom (joinPullRequests_main prs m) =
     dom m \<union> {Ref (Head pr) |pr. pr \<in> set prs \<and> isGerritChange (Ref (Head pr))}"
proof (induction prs rule: rev_induct)
  case Nil
  show ?case by (simp add: joinPullRequests_main_def)
next
  case (snoc pr prs)
  show ?case
    unfolding joinPullRequests_main_snoc dom_joinPullRequest_main snoc.IH by auto
qed

text \<open>
  C1. When the fetches of a pass succeed, the keys of the map \<open>poll\<close> builds are the
  ids of the fetched changes together with the head refs of the fetched pull requests
  that pass the prefix test, and every entry has a change or a pull request. The two
  loops of \<open>run\<close> in \<open>main.go\<close> build a map with the same two properties from any
  lists of changes and pull requests.
\<close>

theorem C1_join_complete:
  assumes "buildJoin x s h = (Inr m, h')"
  shows "dom m = ChangeID ` set (fetchedChanges x h) \<union>
                 {Ref (Head pr) |pr. pr \<in> set (fetchedPullRequests x s h) \<and> isGerritChange (Ref (Head pr))} \<and>
         (\<forall>k c. m k = Some c \<longrightarrow> ChangeInfo c \<noteq> None \<or> PullRequest c \<noteq> None) \<and>
         dom (joinPullRequests_main prs (joinChanges_main gcs Map.empty)) =
           gc_ID ` set gcs \<union> {Ref (Head pr) |pr. pr \<in> set prs \<and> isGerritChange (Ref (Head pr))} \<and>
         (\<forall>k c. joinPullRequests_main prs (joinChanges_main gcs Map.empty) k = Some c \<longrightarrow>
                GerritChange c \<noteq> None \<or> PullRequest_main c \<noteq> None)"
proof -
  note m = buildJoin_result [OF assms]
  have "dom m = ChangeID ` set (fetchedChanges x h) \<union>
                 {Ref (Head pr) |pr. pr \<in> set (fetchedPullRequests x s h) \<and> isGerritChange (Ref (Head pr))}"
    by (simp add: m dom_joinPullRequests dom_joinChanges)
  moreover have "ChangeInfo c \<noteq> None \<or> PullRequest c \<noteq> None" if "m k = Some c" for k c
    using that
    by (auto simp: m joinPullRequests_apply joinChanges_apply split: option.splits)
  moreover have "dom (joinPullRequests_main prs (joinChanges_main gcs Map.empty)) =
           gc_ID ` set gcs \<union> {Ref (Head pr) |pr. pr \<in> set prs \<and> isGerritChange (Ref (Head pr))}"
    by (simp add: dom_joinPullRequests_main dom_joinChanges_main)
  moreover have "GerritChange c \<noteq> None \<or> PullRequest_main c \<noteq> None"
    if "joinPullRequests_main prs (joinChanges_main gcs Map.empty) k = Some c" for k c
    using that
    by (auto simp: joinPullRequests_main_apply joinChanges_main_apply split: option.splits)
  ultimately show ?thesis by blast
qed

theorem C1_join_complete_witness:
  "(case buildJoin
           (quiet [change0 ''a'' ''I1'' ''r'' []] [''a'']
              (\<lambda>u. [pull0 7 ''I1'' ''q'' ''o/a'', pull0 8 ''feature-xyz'' ''p'' ''o/a'',
                     pull0 9 ''I2'' ''t'' ''o/a'']) (\<lambda>u. []) [])
           sync0 [] of
      (Inl err, h') \<Rightarrow> False
    | (Inr m, h') \<Rightarrow>
        dom m = {''I1'', ''I2''} \<and>
        m ''I1'' = Some \<lparr>ChangeInfo = Some (change0 ''a'' ''I1'' ''r'' []),
                         PullRequest = Some (pull0 7 ''I1'' ''q'' ''o/a'')\<rparr> \<and>
        m ''I2'' = Some \<lparr>ChangeInfo = None, PullRequest = Some (pull0 9 ''I2'' ''t'' ''o/a'')\<rparr> \<and>
        m ''feature-xyz'' = None)"
proof -
  let ?cis = "[change0 ''a'' ''I1'' ''r'' []]"
  let ?prs = "[pull0 7 ''I1'' ''q'' ''o/a'', pull0 8 ''feature-xyz'' ''p'' ''o/a'',
               pull0 9 ''I2'' ''t'' ''o/a'']"
  let ?x = "quiet ?cis [''a''] (\<lambda>u. ?prs) (\<lambda>u. []) []"
  let ?m = "joinPullRequests ?prs (joinChanges ?cis Map.empty)"
  have run: "buildJoin ?x sync0 [] =
      (Inr ?m, [QueryChanges, GitHubGet ''https://u:t@api.github.com/users/o/repos'',
                GitHubGet ''https://u:t@api.github.com/repos/o/a/pulls''])"
    by (simp add: buildJoin_def gerritChanges_def githubRepos_def pullRequests_def quiet_def path_join_def
        sync0_def github_url_def)
  have fc: "fetchedChanges ?x [] = ?cis"
    by (simp add: fetchedChanges_def quiet_def path_join_def)
  have fp: "fetchedPullRequests ?x sync0 [] = ?prs"
    by (simp add: fetchedPullRequests_def githubRepos_def pullRequests_def quiet_def path_join_def)
  have "{Ref (Head pr) |pr. pr \<in> set ?prs \<and> isGerritChange (Ref (Head pr))} =
          (\<lambda>pr. Ref (Head pr)) ` set (filter (\<lambda>pr. isGerritChange (Ref (Head pr))) ?prs)"
    by auto
  also have "\<dots> = {''I1'', ''I2''}"
    by (simp add: pull0_def isGerritChange_def)
  finally have ids: "{Ref (Head pr) |pr. pr \<in> set ?prs \<and> isGerritChange (Ref (Head pr))} = {''I1'', ''I2''}" .
  have vals: "?m ''I1'' = Some \<lparr>ChangeInfo = Some (change0 ''a'' ''I1'' ''r'' []),
                         PullRequest = Some (pull0 7 ''I1'' ''q'' ''o/a'')\<rparr>"
     "?m ''I2'' = Some \<lparr>ChangeInfo = None, PullRequest = Some (pull0 9 ''I2'' ''t'' ''o/a'')\<rparr>"
     "?m ''feature-xyz'' = None"
    by (simp_all add: joinPullRequests_def joinPullRequest_def joinChanges_def pull0_def change0_def
        isGerritChange_def)
  from C1_join_complete [OF run] have "dom ?m = {''I1'', ''I2''}"
    unfolding fc fp ids by (auto simp: change0_def)
  with vals show ?thesis
    by (simp add: run)
qed

section \<open>Order of insertion\<close>

lemma find_unique_mset:
  assumes "mset xs = mset ys"
    and "\<And>a b. a \<in> set xs \<Longrightarrow> b \<in> set xs \<Longrightarrow> P a \<Longrightarrow> P b \<Longrightarrow> a = b"
  shows "find P xs = find P ys"
proof -
  from assms(1) have sets: "set xs = set ys"
    by (rule mset_eq_setD)
  show ?thesis
  proof (cases "find P xs")
    case None
    then have "\<forall>a \<in> set ys. \<not> P a"
      by (simp add: find_None_iff sets)
    then have "find P ys = None"
      by (simp add: find_None_iff)
    with None show ?thesis by simp
  next
    case (Some a)
    then have a: "a \<in> set xs" "P a"
      by (auto simp: find_Some_iff)
    then have "find P ys \<noteq> None"
      by (auto simp: find_None_iff sets)
    then obtain b where b: "find P ys = Some b"
      by blast
    then have "b \<in> set xs" "P b"
      by (auto simp: find_Some_iff sets)
    with a assms(2) have "a = b" by blast
    with Some b show ?thesis by simp
  qed
qed

text \<open>
  C6 (amended). With every change inserted before every pull request, as \<open>poll\<close> and
  \<open>run\<close> do, the map does not depend on the order within the changes or within the
  pull requests, when the change ids are pairwise distinct and the head refs of the
  pull requests that pass the prefix test are pairwise distinct.
\<close>

theorem C6_join_order_within_phases:
  assumes "mset cis' = mset cis" and "mset prs' = mset prs" and "mset gcs' = mset gcs"
    and "distinct (map ChangeID cis)" and "distinct (map gc_ID gcs)"
    and "distinct (map (\<lambda>pr. Ref (Head pr)) (filter (\<lambda>pr. isGerritChange (Ref (Head pr))) prs))"
  shows "joinPullRequests prs' (joinChanges cis' Map.empty) =
           joinPullRequests prs (joinChanges cis Map.empty) \<and>
         joinPullRequests_main prs' (joinChanges_main gcs' Map.empty) =
           joinPullRequests_main prs (joinChanges_main gcs Map.empty)"
proof -
  have p: "find (\<lambda>pr. isGerritChange (Ref (Head pr)) \<and> Ref (Head pr) = k) (rev prs') =
           find (\<lambda>pr. isGerritChange (Ref (Head pr)) \<and> Ref (Head pr) = k) (rev prs)" for k
  proof (rule find_unique_mset)
    show "mset (rev prs') = mset (rev prs)"
      using assms(2) by simp
    fix a b
    assume "a \<in> set (rev prs')" "b \<in> set (rev prs')"
      "isGerritChange (Ref (Head a)) \<and> Ref (Head a) = k"
      "isGerritChange (Ref (Head b)) \<and> Ref (Head b) = k"
    moreover have "set prs' = set prs"
      using assms(2) by (rule mset_eq_setD)
    moreover have "inj_on (\<lambda>pr. Ref (Head pr)) (set (filter (\<lambda>pr. isGerritChange (Ref (Head pr))) prs))"
      using assms(6) by (simp add: distinct_map)
    ultimately show "a = b"
      by (auto dest!: inj_onD)
  qed
  have c: "find (\<lambda>ci. ChangeID ci = k) (rev cis') = find (\<lambda>ci. ChangeID ci = k) (rev cis)" for k
  proof (rule find_unique_mset)
    show "mset (rev cis') = mset (rev cis)"
      using assms(1) by simp
    fix a b
    assume "a \<in> set (rev cis')" "b \<in> set (rev cis')" "ChangeID a = k" "ChangeID b = k"
    moreover have "set cis' = set cis"
      using assms(1) by (rule mset_eq_setD)
    moreover have "inj_on ChangeID (set cis)"
      using assms(4) by (simp add: distinct_map)
    ultimately show "a = b"
      by (auto dest: inj_onD)
  qed
  have g: "find (\<lambda>gc. gc_ID gc = k) (rev gcs') = find (\<lambda>gc. gc_ID gc = k) (rev gcs)" for k
  proof (rule find_unique_mset)
    show "mset (rev gcs') = mset (rev gcs)"
      using assms(3) by simp
    fix a b
    assume "a \<in> set (rev gcs')" "b \<in> set (rev gcs')" "gc_ID a = k" "gc_ID b = k"
    moreover have "set gcs' = set gcs"
      using assms(3) by (rule mset_eq_setD)
    moreover have "inj_on gc_ID (set gcs)"
      using assms(5) by (simp add: distinct_map)
    ultimately show "a = b"
      by (auto dest: inj_onD)
  qed
  have "joinPullRequests prs' (joinChanges cis' Map.empty) k =
        joinPullRequests prs (joinChanges cis Map.empty) k" for k
  proof -
    have jc: "joinChanges cis' Map.empty k = joinChanges cis Map.empty k"
      by (simp add: joinChanges_apply c)
    show ?thesis
      unfolding joinPullRequests_apply p jc by (rule refl)
  qed
  moreover have "joinPullRequests_main prs' (joinChanges_main gcs' Map.empty) k =
        joinPullRequests_main prs (joinChanges_main gcs Map.empty) k" for k
  proof -
    have jc: "joinChanges_main gcs' Map.empty k = joinChanges_main gcs Map.empty k"
      by (simp add: joinChanges_main_apply g)
    show ?thesis
      unfolding joinPullRequests_main_apply p jc by (rule refl)
  qed
  ultimately show ?thesis
    by blast
qed

theorem C6_join_order_within_phases_witness:
  "joinPullRequests
     [pull0 8 ''feature-xyz'' ''p'' ''o/a'', pull0 9 ''I2'' ''t'' ''o/b'', pull0 7 ''I1'' ''q'' ''o/a'']
     (joinChanges [change0 ''b'' ''I3'' ''s'' [], change0 ''a'' ''I1'' ''r'' []] Map.empty) =
   joinPullRequests
     [pull0 7 ''I1'' ''q'' ''o/a'', pull0 8 ''feature-xyz'' ''p'' ''o/a'', pull0 9 ''I2'' ''t'' ''o/b'']
     (joinChanges [change0 ''a'' ''I1'' ''r'' [], change0 ''b'' ''I3'' ''s'' []] Map.empty) \<and>
   joinPullRequests_main
     [pull0 8 ''feature-xyz'' ''p'' ''o/a'', pull0 9 ''I2'' ''t'' ''o/b'', pull0 7 ''I1'' ''q'' ''o/a'']
     (joinChanges_main [gchange0 ''b'' ''I3'' ''s'', gchange0 ''a'' ''I1'' ''r''] Map.empty) =
   joinPullRequests_main
     [pull0 7 ''I1'' ''q'' ''o/a'', pull0 8 ''feature-xyz'' ''p'' ''o/a'', pull0 9 ''I2'' ''t'' ''o/b'']
     (joinChanges_main [gchange0 ''a'' ''I1'' ''r'', gchange0 ''b'' ''I3'' ''s''] Map.empty)"
  by (rule C6_join_order_within_phases)
     (simp_all add: change0_def gchange0_def pull0_def isGerritChange_def)

text \<open>
  C6 as stated fails: the step for a change replaces the whole entry, so a pull request
  inserted before the change with the same identifier is lost.
\<close>

theorem C6_interleaving_counterexample:
  "joinChanges [change0 ''a'' ''I1'' ''r'' []]
     (joinPullRequests [pull0 7 ''I1'' ''r'' ''o/a''] Map.empty) ''I1'' =
     Some \<lparr>ChangeInfo = Some (change0 ''a'' ''I1'' ''r'' []), PullRequest = None\<rparr> \<and>
   joinPullRequests [pull0 7 ''I1'' ''r'' ''o/a'']
     (joinChanges [change0 ''a'' ''I1'' ''r'' []] Map.empty) ''I1'' =
     Some \<lparr>ChangeInfo = Some (change0 ''a'' ''I1'' ''r'' []),
           PullRequest = Some (pull0 7 ''I1'' ''r'' ''o/a'')\<rparr> \<and>
   joinChanges [change0 ''a'' ''I1'' ''r'' []]
     (joinPullRequests [pull0 7 ''I1'' ''r'' ''o/a''] Map.empty) \<noteq>
   joinPullRequests [pull0 7 ''I1'' ''r'' ''o/a'']
     (joinChanges [change0 ''a'' ''I1'' ''r'' []] Map.empty)"
proof -
  have a: "joinChanges [change0 ''a'' ''I1'' ''r'' []]
     (joinPullRequests [pull0 7 ''I1'' ''r'' ''o/a''] Map.empty) ''I1'' =
     Some \<lparr>ChangeInfo = Some (change0 ''a'' ''I1'' ''r'' []), PullRequest = None\<rparr>"
    by (simp add: joinChanges_def change0_def)
  have b: "joinPullRequests [pull0 7 ''I1'' ''r'' ''o/a'']
     (joinChanges [change0 ''a'' ''I1'' ''r'' []] Map.empty) ''I1'' =
     Some \<lparr>ChangeInfo = Some (change0 ''a'' ''I1'' ''r'' []),
           PullRequest = Some (pull0 7 ''I1'' ''r'' ''o/a'')\<rparr>"
    by (simp add: joinChanges_def joinPullRequests_def joinPullRequest_def change0_def pull0_def
        isGerritChange_def)
  from a b have "joinChanges [change0 ''a'' ''I1'' ''r'' []]
     (joinPullRequests [pull0 7 ''I1'' ''r'' ''o/a''] Map.empty) ''I1'' \<noteq>
   joinPullRequests [pull0 7 ''I1'' ''r'' ''o/a'']
     (joinChanges [change0 ''a'' ''I1'' ''r'' []] Map.empty) ''I1''"
    by simp
  then have "joinChanges [change0 ''a'' ''I1'' ''r'' []]
     (joinPullRequests [pull0 7 ''I1'' ''r'' ''o/a''] Map.empty) \<noteq>
   joinPullRequests [pull0 7 ''I1'' ''r'' ''o/a'']
     (joinChanges [change0 ''a'' ''I1'' ''r'' []] Map.empty)"
    by metis
  with a b show ?thesis by blast
qed

section \<open>The calls of each operation\<close>

lemma git_calls: "git x dir args h = (r, h') \<Longrightarrow> h' = h @ [Git dir args]"
  by (auto simp: git_def split: cmd_result.splits)

lemma clone_calls:
  "clone x s dir project h = (r, h') \<Longrightarrow> \<exists>t. h' = h @ t \<and> list_all is_local t"
  by (auto simp: clone_def git_def Let_def
           split: stat_result.splits option.splits cmd_result.splits if_splits)

lemma syncBranch_reset_calls:
  "syncBranch_reset x s dir c h = (r, h') \<Longrightarrow>
   \<exists>t. h' = h @ t \<and> list_all is_local t \<and>
       (r = None \<longrightarrow>
          Git dir [''push'', ''-f'',
                   ''https://'' @ AuthToken s @ ''@github.com/'' @ GitHubOwner s @ ''/'' @ Project c,
                   ChangeID c] \<in> set t)"
  by (auto simp: syncBranch_reset_def git_def Let_def split: cmd_result.splits)

lemma syncBranch_calls:
  assumes "syncBranch x s dir c h = (r, h')"
  shows "\<exists>t. h' = h @ t \<and> list_all is_local t \<and>
       (r = None \<longrightarrow>
          Git dir [''push'', ''-f'',
                   ''https://'' @ AuthToken s @ ''@github.com/'' @ GitHubOwner s @ ''/'' @ Project c,
                   ChangeID c] \<in> set t)"
proof -
  obtain r1 h1 where c1: "clone x s dir (Project c) h = (r1, h1)"
    by fastforce
  from clone_calls [OF c1] obtain t1 where t1: "h1 = h @ t1" "list_all is_local t1"
    by blast
  show ?thesis
  proof (cases r1)
    case (Some err)
    with assms c1 t1 show ?thesis
      by (auto simp: syncBranch_def)
  next
    case None
    let ?co = "Git dir [''checkout'', ChangeID c]"
    let ?cb = "Git dir [''checkout'', ''-b'', ChangeID c]"
    from assms c1 None consider
        (reset1) "syncBranch_reset x s dir c (h1 @ [?co]) = (r, h')"
      | (reset2) "syncBranch_reset x s dir c (h1 @ [?co, ?cb]) = (r, h')"
      | (fail) "r \<noteq> None" "h' = h1 @ [?co, ?cb]"
      by (auto simp: syncBranch_def git_def split: cmd_result.splits)
    then show ?thesis
    proof cases
      case reset1
      from syncBranch_reset_calls [OF this] t1 show ?thesis
        by auto
    next
      case reset2
      from syncBranch_reset_calls [OF this] t1 show ?thesis
        by auto
    next
      case fail
      with t1 show ?thesis by auto
    qed
  qed
qed

lemma deleteBranch_calls:
  assumes "deleteBranch x s dir repo ref h = (r, h')"
  shows "\<exists>t. h' = h @ t \<and> list_all is_local t \<and>
       (r = None \<longrightarrow>
          Git dir [''push'', ''--delete'',
                   ''https://'' @ AuthToken s @ ''@github.com/'' @ GitHubOwner s @ ''/'' @ repo,
                   ref] \<in> set t)"
proof -
  obtain r1 h1 where c1: "clone x s dir repo h = (r1, h1)"
    by fastforce
  from clone_calls [OF c1] obtain t1 where t1: "h1 = h @ t1" "list_all is_local t1"
    by blast
  from assms c1 t1 show ?thesis
    by (cases r1) (auto simp: deleteBranch_def git_def Let_def split: cmd_result.splits)
qed

lemma closePullRequest_calls:
  "closePullRequest x s pr h = (r, h') \<Longrightarrow>
   h' = h @ [GitHubPost (github_url s (''repos/'' @ Repo_Name (Head pr) @ ''/pulls/'' @
                                       Sprint x (Number pr))) (SetState ''closed'')]"
  by (auto simp: closePullRequest_def Let_def)

lemma createPullRequest_calls:
  "createPullRequest x s ci h = (r, h') \<Longrightarrow> \<exists>url p. h' = h @ [GitHubPost url p]"
  by (auto simp: createPullRequest_def Let_def)

text \<open>The branch of the \<open>switch\<close> for a pull request with no change.\<close>

lemma dispatch_close_calls:
  assumes "PullRequest c = Some pr" and "ChangeInfo c = None"
    and "dispatch x s root c h = (r, h')"
  shows "\<exists>t. h' = h @ Log (''Pull request '' @ Sprint x (Number pr) @
                           '' has no corresponding Gerrit change. Closing.'') #
                    GitHubPost (github_url s (''repos/'' @ Repo_Name (Head pr) @ ''/pulls/'' @
                                              Sprint x (Number pr))) (SetState ''closed'') # t \<and>
            list_all is_local t \<and>
            (r = Done \<longrightarrow>
               Git (filepath_Join x root (SplitN2 (Repo_Name (Head pr)) ! 1))
                   [''push'', ''--delete'',
                    ''https://'' @ AuthToken s @ ''@github.com/'' @ GitHubOwner s @ ''/'' @
                      SplitN2 (Repo_Name (Head pr)) ! 1,
                    Ref (Head pr)] \<in> set t)"
proof -
  let ?h0 = "h @ [Log (''Pull request '' @ Sprint x (Number pr) @
                           '' has no corresponding Gerrit change. Closing.'')]"
  let ?post = "GitHubPost (github_url s (''repos/'' @ Repo_Name (Head pr) @ ''/pulls/'' @
                                              Sprint x (Number pr))) (SetState ''closed'')"
  let ?repo = "SplitN2 (Repo_Name (Head pr)) ! 1"
  obtain r1 h1 where "closePullRequest x s pr ?h0 = (r1, h1)"
    by fastforce
  with closePullRequest_calls [OF this]
  have c1: "closePullRequest x s pr ?h0 = (r1, ?h0 @ [?post])"
    by simp
  show ?thesis
  proof (cases "r1 = None \<and> \<not> length (SplitN2 (Repo_Name (Head pr))) \<le> 1")
    case False
    with assms c1 have "h' = ?h0 @ [?post]" "r \<noteq> Done"
      by (auto simp: dispatch_def Let_def split: option.splits)
    then show ?thesis by simp
  next
    case True
    obtain r2 h2 where d: "deleteBranch x s (filepath_Join x root ?repo) ?repo (Ref (Head pr))
                              (?h0 @ [?post]) = (r2, h2)"
      by fastforce
    from deleteBranch_calls [OF d] obtain t where
      t: "h2 = (?h0 @ [?post]) @ t" "list_all is_local t"
         "r2 = None \<longrightarrow> Git (filepath_Join x root ?repo)
                   [''push'', ''--delete'',
                    ''https://'' @ AuthToken s @ ''@github.com/'' @ GitHubOwner s @ ''/'' @ ?repo,
                    Ref (Head pr)] \<in> set t"
      by blast
    from assms c1 True d have "h' = h2" "r = Done \<longrightarrow> r2 = None"
      by (auto simp: dispatch_def Let_def split: option.splits)
    with t show ?thesis by simp
  qed
qed

section \<open>Closing an orphaned pull request\<close>

lemma clone_main_calls:
  "clone_main x s dir project h = (r, h') \<Longrightarrow> \<exists>t. h' = h @ t \<and> list_all is_local t"
  by (auto simp: clone_main_def git_def Let_def
           split: stat_result.splits option.splits cmd_result.splits if_splits)

lemma deleteBranch_main_calls:
  assumes "deleteBranch_main x s dir repo ref h = (r, h')"
  shows "\<exists>t. h' = h @ t \<and> list_all is_local t \<and>
       (r = None \<longrightarrow>
          Git dir [''push'', ''--delete'',
                   ''https://'' @ AuthToken_main s @ ''@github.com/'' @ Owner s @ ''/'' @ repo,
                   ref] \<in> set t)"
proof -
  obtain r1 h1 where c1: "clone_main x s dir repo h = (r1, h1)"
    by fastforce
  from clone_main_calls [OF c1] obtain t1 where t1: "h1 = h @ t1" "list_all is_local t1"
    by blast
  from assms c1 t1 show ?thesis
    by (cases r1) (auto simp: deleteBranch_main_def git_def Let_def split: cmd_result.splits)
qed

lemma relay_main_calls: "\<exists>logs. relay_main statuses h = h @ logs \<and> list_all is_Log logs"
proof (induction statuses arbitrary: h)
  case Nil
  show ?case by simp
next
  case (Cons stat statuses)
  show ?case
  proof (cases "Context stat = ''continuous-integration/travis-ci/pr'' \<and>
                (State stat = ''success'' \<or> State stat = ''failure'')")
    case False
    then have "relay_main (stat # statuses) h = relay_main statuses h"
      by auto
    with Cons.IH [of h] show ?thesis by simp
  next
    case True
    let ?l = "Log (Description stat @ '': '' @ Target stat)"
    from True have "relay_main (stat # statuses) h = relay_main statuses (h @ [?l])"
      by auto
    moreover from Cons.IH [of "h @ [?l]"] obtain logs where
      "relay_main statuses (h @ [?l]) = (h @ [?l]) @ logs" "list_all is_Log logs"
      by blast
    ultimately show ?thesis
      by (intro exI [of _ "?l # logs"]) simp
  qed
qed

lemma syncComments_main_calls:
  assumes "PullRequest_main c = Some pr" and "syncComments_main x s c h = (r, h')"
  shows "\<exists>logs. h' = h @ GitHubGet (gitHub_url s (''repos/'' @ Repo_Name (Head pr) @ ''/commits/'' @
                                              SHA (Head pr) @ ''/statuses'')) # logs \<and>
              list_all is_Log logs \<and> r \<noteq> Panic"
proof -
  let ?get = "GitHubGet (gitHub_url s (''repos/'' @ Repo_Name (Head pr) @ ''/commits/'' @
                                              SHA (Head pr) @ ''/statuses''))"
  show ?thesis
  proof (cases "github_statuses x h (gitHub_url s (''repos/'' @ Repo_Name (Head pr) @ ''/commits/'' @
                                              SHA (Head pr) @ ''/statuses''))")
    case (Inl err)
    with assms have "h' = h @ [?get]" "r \<noteq> Panic"
      by (auto simp: syncComments_main_def Let_def)
    then show ?thesis by simp
  next
    case (Inr statuses)
    with assms have "h' = relay_main statuses (h @ [?get])" "r \<noteq> Panic"
      by (auto simp: syncComments_main_def Let_def)
    with relay_main_calls [of statuses "h @ [?get]"] show ?thesis
      by auto
  qed
qed

lemma closePullRequest_main_calls:
  "closePullRequest_main x s pr h = (r, h') \<Longrightarrow>
   h' = h @ [GitHubPost (gitHub_url s (''repos/'' @ Repo_Name (Head pr) @ ''/pulls/'' @
                                       Sprint x (Number pr))) (SetState ''closed'')]"
  by (auto simp: closePullRequest_main_def Let_def)

lemma dispatch_main_close_calls:
  assumes "PullRequest_main c = Some pr" and "GerritChange c = None"
    and "dispatch_main x s root c h = (Done, h')"
  shows "\<exists>logs t.
            h' = h @ Log (''Pull request '' @ Sprint x (Number pr) @
                           '' has no corresponding Gerrit change. Closing.'') #
                    GitHubGet (gitHub_url s (''repos/'' @ Repo_Name (Head pr) @ ''/commits/'' @
                                              SHA (Head pr) @ ''/statuses'')) # logs @
                    GitHubPost (gitHub_url s (''repos/'' @ Repo_Name (Head pr) @ ''/pulls/'' @
                                              Sprint x (Number pr))) (SetState ''closed'') # t \<and>
            list_all is_Log logs \<and> list_all is_local t \<and>
            Git (filepath_Join x root (SplitN2 (Repo_Name (Head pr)) ! 1))
                   [''push'', ''--delete'',
                    ''https://'' @ AuthToken_main s @ ''@github.com/'' @ Owner s @ ''/'' @
                      SplitN2 (Repo_Name (Head pr)) ! 1,
                    Ref (Head pr)] \<in> set t"
proof -
  let ?h0 = "h @ [Log (''Pull request '' @ Sprint x (Number pr) @
                           '' has no corresponding Gerrit change. Closing.'')]"
  let ?get = "GitHubGet (gitHub_url s (''repos/'' @ Repo_Name (Head pr) @ ''/commits/'' @
                                              SHA (Head pr) @ ''/statuses''))"
  let ?post = "GitHubPost (gitHub_url s (''repos/'' @ Repo_Name (Head pr) @ ''/pulls/'' @
                                              Sprint x (Number pr))) (SetState ''closed'')"
  let ?repo = "SplitN2 (Repo_Name (Head pr)) ! 1"
  obtain r1 h1 where s1: "syncComments_main x s c ?h0 = (r1, h1)"
    by fastforce
  from syncComments_main_calls [OF assms(1) s1] obtain logs where
    logs: "h1 = ?h0 @ ?get # logs" "list_all is_Log logs"
    by blast
  obtain r2 h2 where c2: "closePullRequest_main x s pr h1 = (r2, h2)"
    by fastforce
  note h2 = closePullRequest_main_calls [OF c2]
  obtain r3 h3 where d: "deleteBranch_main x s (filepath_Join x root ?repo) ?repo (Ref (Head pr)) h2
                            = (r3, h3)"
    by fastforce
  from deleteBranch_main_calls [OF d] obtain t where
    t: "h3 = h2 @ t" "list_all is_local t"
       "r3 = None \<longrightarrow> Git (filepath_Join x root ?repo)
                   [''push'', ''--delete'',
                    ''https://'' @ AuthToken_main s @ ''@github.com/'' @ Owner s @ ''/'' @ ?repo,
                    Ref (Head pr)] \<in> set t"
    by blast
  from assms s1 c2 d have "r1 = Done \<and> r2 = None \<and> r3 = None \<and> h' = h3"
    by (auto simp: dispatch_main_def Let_def split: outcome.splits option.splits if_splits)
  with logs h2 t show ?thesis
    by (intro exI [of _ logs] exI [of _ t]) simp
qed

text \<open>
  C5 (amended). In \<open>poll\<close>, the branch for a pull request with no change logs, sends
  the close request, and then runs \<open>deleteBranch\<close>, whose calls are git and file system
  calls only: no status is fetched and no review is posted, and when the branch
  completes the remote branch has been deleted after the close. In \<open>run\<close> of
  \<open>main.go\<close>, a branch that completes has fetched the statuses and logged the retained
  messages first, then sent the close request, then deleted the branch.
\<close>

theorem C5_close_then_delete:
  "(PullRequest c = Some pr \<and> ChangeInfo c = None \<and> dispatch x s root c h = (r, h') \<longrightarrow>
      (\<exists>t. h' = h @ Log (''Pull request '' @ Sprint x (Number pr) @
                           '' has no corresponding Gerrit change. Closing.'') #
                    GitHubPost (github_url s (''repos/'' @ Repo_Name (Head pr) @ ''/pulls/'' @
                                              Sprint x (Number pr))) (SetState ''closed'') # t \<and>
            list_all is_local t \<and>
            (r = Done \<longrightarrow>
               Git (filepath_Join x root (SplitN2 (Repo_Name (Head pr)) ! 1))
                   [''push'', ''--delete'',
                    ''https://'' @ AuthToken s @ ''@github.com/'' @ GitHubOwner s @ ''/'' @
                      SplitN2 (Repo_Name (Head pr)) ! 1,
                    Ref (Head pr)] \<in> set t))) \<and>
   (PullRequest_main c' = Some pr \<and> GerritChange c' = None \<and>
    dispatch_main x s' root c' h = (Done, h'') \<longrightarrow>
      (\<exists>logs t.
            h'' = h @ Log (''Pull request '' @ Sprint x (Number pr) @
                           '' has no corresponding Gerrit change. Closing.'') #
                    GitHubGet (gitHub_url s' (''repos/'' @ Repo_Name (Head pr) @ ''/commits/'' @
                                              SHA (Head pr) @ ''/statuses'')) # logs @
                    GitHubPost (gitHub_url s' (''repos/'' @ Repo_Name (Head pr) @ ''/pulls/'' @
                                              Sprint x (Number pr))) (SetState ''closed'') # t \<and>
            list_all is_Log logs \<and> list_all is_local t \<and>
            Git (filepath_Join x root (SplitN2 (Repo_Name (Head pr)) ! 1))
                   [''push'', ''--delete'',
                    ''https://'' @ AuthToken_main s' @ ''@github.com/'' @ Owner s' @ ''/'' @
                      SplitN2 (Repo_Name (Head pr)) ! 1,
                    Ref (Head pr)] \<in> set t))"
  using dispatch_close_calls [of c pr x s root h r h']
        dispatch_main_close_calls [of c' pr x s' root h h'']
  by blast

theorem C5_close_then_delete_witness:
  "(\<exists>t. snd (dispatch (quiet [] [] (\<lambda>u. [])
                        (\<lambda>u. [status0 ''failure'' ''tests failed'' ''http://ci/42'']) [])
                 sync0 ''/tmp''
                 \<lparr>ChangeInfo = None, PullRequest = Some (pull0 7 ''I1'' ''q'' ''o/b'')\<rparr> []) =
          Log ''Pull request 7 has no corresponding Gerrit change. Closing.'' #
          GitHubPost ''https://u:t@api.github.com/repos/o/b/pulls/7'' (SetState ''closed'') # t \<and>
        list_all is_local t \<and>
        Git ''/tmp/b'' [''push'', ''--delete'', ''https://u:t@github.com/o/b'', ''I1''] \<in> set t) \<and>
   (\<exists>logs t. snd (dispatch_main (quiet [] [] (\<lambda>u. [])
                        (\<lambda>u. [status0 ''failure'' ''tests failed'' ''http://ci/42'']) [])
                 sync0_main ''/tmp''
                 \<lparr>GerritChange = None, PullRequest_main = Some (pull0 7 ''I1'' ''q'' ''o/b'')\<rparr> []) =
          Log ''Pull request 7 has no corresponding Gerrit change. Closing.'' #
          GitHubGet ''https://u:t@api.github.com/repos/o/b/commits/q/statuses'' # logs @
          GitHubPost ''https://u:t@api.github.com/repos/o/b/pulls/7'' (SetState ''closed'') # t \<and>
        list_all is_Log logs \<and> list_all is_local t \<and>
        Git ''/tmp/b'' [''push'', ''--delete'', ''https://u:t@github.com/o/b'', ''I1''] \<in> set t)"
proof -
  let ?x = "quiet [] [] (\<lambda>u. []) (\<lambda>u. [status0 ''failure'' ''tests failed'' ''http://ci/42'']) []"
  let ?pr = "pull0 7 ''I1'' ''q'' ''o/b''"
  let ?c = "\<lparr>ChangeInfo = None, PullRequest = Some ?pr\<rparr>"
  let ?c' = "\<lparr>GerritChange = None, PullRequest_main = Some ?pr\<rparr>"
  let ?h = "[Log ''Pull request 7 has no corresponding Gerrit change. Closing.'',
      GitHubPost ''https://u:t@api.github.com/repos/o/b/pulls/7'' (SetState ''closed''),
      Stat ''/tmp/b'', MkdirAll ''/tmp/b'',
      Git ''/tmp/b'' [''clone'', ''https://g/b'', ''/tmp/b''],
      Git ''/tmp/b'' [''checkout'', ''master''],
      Git ''/tmp/b'' [''push'', ''--delete'', ''https://u:t@github.com/o/b'', ''I1''],
      Git ''/tmp/b'' [''branch'', ''-D'', ''I1'']]"
  let ?h' = "[Log ''Pull request 7 has no corresponding Gerrit change. Closing.'',
      GitHubGet ''https://u:t@api.github.com/repos/o/b/commits/q/statuses'',
      Log ''tests failed: http://ci/42'',
      GitHubPost ''https://u:t@api.github.com/repos/o/b/pulls/7'' (SetState ''closed''),
      Stat ''/tmp/b'', MkdirAll ''/tmp/b'',
      Git ''/tmp/b'' [''clone'', ''https://g.googlesource.com/b'', ''/tmp/b''],
      Git ''/tmp/b'' [''checkout'', ''master''],
      Git ''/tmp/b'' [''push'', ''--delete'', ''https://u:t@github.com/o/b'', ''I1''],
      Git ''/tmp/b'' [''branch'', ''-D'', ''I1'']]"
  have run: "dispatch ?x sync0 ''/tmp'' ?c [] = (Done, ?h)"
    by (simp add: dispatch_def quiet_def path_join_def sync0_def pull0_def closePullRequest_def github_url_def
        Sprint_int_def digit_def SplitN2_def deleteBranch_def clone_def git_def Let_def)
  have run': "dispatch_main ?x sync0_main ''/tmp'' ?c' [] = (Done, ?h')"
    by (simp add: dispatch_main_def quiet_def path_join_def sync0_main_def pull0_def closePullRequest_main_def
        gitHub_url_def Sprint_int_def digit_def SplitN2_def deleteBranch_main_def clone_main_def
        git_def syncComments_main_def status0_def Let_def)
  have names: "Sprint ?x (Number ?pr) = ''7''" "Repo_Name (Head ?pr) = ''o/b''"
    "SplitN2 ''o/b'' ! 1 = ''b''" "filepath_Join ?x ''/tmp'' ''b'' = ''/tmp/b''"
    "Ref (Head ?pr) = ''I1''" "SHA (Head ?pr) = ''q''"
    by (simp_all add: quiet_def path_join_def pull0_def Sprint_int_def digit_def SplitN2_def)
  from C5_close_then_delete [of ?c ?pr ?x sync0 "''/tmp''" "[]" Done ?h ?c' sync0_main ?h']
  show ?thesis
    unfolding run run' names
    by (simp add: sync0_def sync0_main_def github_url_def gitHub_url_def)
qed

text \<open>
  C5 as stated fails on \<open>poll\<close>: with a failure status recorded on the head commit of
  an orphaned pull request, the pass closes the pull request and deletes the branch
  without fetching the statuses or posting a review.
\<close>

theorem C5_no_relay_before_close_counterexample:
  "dispatch (quiet [] [] (\<lambda>u. []) (\<lambda>u. [status0 ''failure'' ''tests failed'' ''http://ci/42'']) [])
      sync0 ''/tmp'' \<lparr>ChangeInfo = None, PullRequest = Some (pull0 7 ''I1'' ''q'' ''o/b'')\<rparr> [] =
    (Done,
     [Log ''Pull request 7 has no corresponding Gerrit change. Closing.'',
      GitHubPost ''https://u:t@api.github.com/repos/o/b/pulls/7'' (SetState ''closed''),
      Stat ''/tmp/b'', MkdirAll ''/tmp/b'',
      Git ''/tmp/b'' [''clone'', ''https://g/b'', ''/tmp/b''],
      Git ''/tmp/b'' [''checkout'', ''master''],
      Git ''/tmp/b'' [''push'', ''--delete'', ''https://u:t@github.com/o/b'', ''I1''],
      Git ''/tmp/b'' [''branch'', ''-D'', ''I1'']]) \<and>
   action_of \<lparr>ChangeInfo = None, PullRequest = Some (pull0 7 ''I1'' ''q'' ''o/b'')\<rparr> =
     Some CloseAndDelete"
  by (simp add: dispatch_def quiet_def path_join_def sync0_def pull0_def closePullRequest_def github_url_def
        Sprint_int_def digit_def SplitN2_def deleteBranch_def clone_def git_def Let_def
        action_of_def classify_def same_sha_def)

section \<open>The close path and the repository name\<close>

lemma SplitN2_length: "length (SplitN2 n) \<le> Suc 0 \<longleftrightarrow> CHR ''/'' \<notin> set n"
  by (simp add: SplitN2_def)

text \<open>
  C10. In the branch for a pull request with no change, the repository is element 1 of
  the head repository's full name split at the first slash. The split has a single
  element exactly when the name has no slash. In \<open>poll\<close> the branch panics exactly
  when the close request succeeded and the name has no slash; in \<open>run\<close> of
  \<open>main.go\<close>, exactly when the status fetch and the close request succeeded and the
  name has no slash. With a slash in the name neither panics.
\<close>

theorem C10_close_path_needs_slash:
  assumes "PullRequest c = Some pr" and "ChangeInfo c = None"
    and "PullRequest_main c' = Some pr" and "GerritChange c' = None"
  shows "(length (SplitN2 (Repo_Name (Head pr))) \<le> 1 \<longleftrightarrow> CHR ''/'' \<notin> set (Repo_Name (Head pr))) \<and>
         (fst (dispatch x s root c h) = Panic \<longleftrightarrow>
            fst (closePullRequest x s pr
                   (h @ [Log (''Pull request '' @ Sprint x (Number pr) @
                              '' has no corresponding Gerrit change. Closing.'')])) = None \<and>
            CHR ''/'' \<notin> set (Repo_Name (Head pr))) \<and>
         (fst (dispatch_main x s' root c' h) = Panic \<longleftrightarrow>
            (\<exists>h1. syncComments_main x s' c'
                   (h @ [Log (''Pull request '' @ Sprint x (Number pr) @
                              '' has no corresponding Gerrit change. Closing.'')]) = (Done, h1) \<and>
                  fst (closePullRequest_main x s' pr h1) = None) \<and>
            CHR ''/'' \<notin> set (Repo_Name (Head pr)))"
proof -
  let ?h0 = "h @ [Log (''Pull request '' @ Sprint x (Number pr) @
                              '' has no corresponding Gerrit change. Closing.'')]"
  obtain r h1 where cl: "closePullRequest x s pr ?h0 = (r, h1)"
    by fastforce
  have a: "fst (dispatch x s root c h) = Panic \<longleftrightarrow> r = None \<and> CHR ''/'' \<notin> set (Repo_Name (Head pr))"
    using assms(1,2) cl
    by (cases r) (simp_all add: dispatch_def SplitN2_length Let_def split: prod.splits option.splits)
  obtain r1 h1' where sc: "syncComments_main x s' c' ?h0 = (r1, h1')"
    by fastforce
  from syncComments_main_calls [OF assms(3) sc] have np: "r1 \<noteq> Panic"
    by blast
  obtain r2 h2 where cl': "closePullRequest_main x s' pr h1' = (r2, h2)"
    by fastforce
  have b: "fst (dispatch_main x s' root c' h) = Panic \<longleftrightarrow>
             r1 = Done \<and> r2 = None \<and> CHR ''/'' \<notin> set (Repo_Name (Head pr))"
    using assms(3,4) sc cl' np
    by (cases r1; cases r2)
       (simp_all add: dispatch_main_def SplitN2_length Let_def split: prod.splits option.splits)
  from a b cl sc cl' show ?thesis
    using SplitN2_length by auto
qed

theorem C10_close_path_needs_slash_witness:
  "fst (dispatch (quiet [] [] (\<lambda>u. []) (\<lambda>u. []) []) sync0 ''/tmp''
          \<lparr>ChangeInfo = None, PullRequest = Some (pull0 7 ''I1'' ''q'' ''ghost'')\<rparr> []) = Panic \<and>
   fst (dispatch (quiet [] [] (\<lambda>u. []) (\<lambda>u. []) []) sync0 ''/tmp''
          \<lparr>ChangeInfo = None, PullRequest = Some (pull0 7 ''I1'' ''q'' ''o/b'')\<rparr> []) \<noteq> Panic \<and>
   fst (dispatch_main (quiet [] [] (\<lambda>u. []) (\<lambda>u. []) []) sync0_main ''/tmp''
          \<lparr>GerritChange = None, PullRequest_main = Some (pull0 7 ''I1'' ''q'' ''ghost'')\<rparr> []) = Panic \<and>
   fst (dispatch_main (quiet [] [] (\<lambda>u. []) (\<lambda>u. []) []) sync0_main ''/tmp''
          \<lparr>GerritChange = None, PullRequest_main = Some (pull0 7 ''I1'' ''q'' ''o/b'')\<rparr> []) \<noteq> Panic"
  using C10_close_path_needs_slash
          [where c = "\<lparr>ChangeInfo = None, PullRequest = Some (pull0 7 ''I1'' ''q'' ''ghost'')\<rparr>"
             and c' = "\<lparr>GerritChange = None, PullRequest_main = Some (pull0 7 ''I1'' ''q'' ''ghost'')\<rparr>"
             and pr = "pull0 7 ''I1'' ''q'' ''ghost''" and x = "quiet [] [] (\<lambda>u. []) (\<lambda>u. []) []"
             and s = sync0 and s' = sync0_main and root = "''/tmp''" and h = "[]"]
        C10_close_path_needs_slash
          [where c = "\<lparr>ChangeInfo = None, PullRequest = Some (pull0 7 ''I1'' ''q'' ''o/b'')\<rparr>"
             and c' = "\<lparr>GerritChange = None, PullRequest_main = Some (pull0 7 ''I1'' ''q'' ''o/b'')\<rparr>"
             and pr = "pull0 7 ''I1'' ''q'' ''o/b''" and x = "quiet [] [] (\<lambda>u. []) (\<lambda>u. []) []"
             and s = sync0 and s' = sync0_main and root = "''/tmp''" and h = "[]"]
  by (simp add: closePullRequest_def closePullRequest_main_def syncComments_main_def quiet_def path_join_def pull0_def)

section \<open>The prefix test\<close>

lemma isGerritChange_iff: "isGerritChange r \<longleftrightarrow> (\<exists>rest. r = CHR ''I'' # rest)"
  by (cases r) (auto simp: isGerritChange_def)

lemma find_SomeD: "find P xs = Some x \<Longrightarrow> x \<in> set xs \<and> P x"
  by (induction xs) (auto split: if_splits)

section \<open>The switch and the classification\<close>

lemma dispatch_create_calls:
  assumes "ChangeInfo c = Some ci" and "PullRequest c = None"
    and "dispatch x s root c h = (Done, h')"
  shows "\<exists>t. h' = h @ Log (''Gerrit change '' @ ChangeID ci @
                           '' needs corresponding pull request. Creating one.'') # t @
                    [GitHubPost (github_url s (''repos/'' @ GitHubOwner s @ ''/'' @ Project ci @ ''/pulls''))
                       (NewPull (Subject ci)
                          ''Automatically created pull request. **Do not review or merge this PR.**''
                          (ChangeID ci) ''master'')] \<and>
            list_all is_local t \<and>
            Git (filepath_Join x root (Project ci))
                [''push'', ''-f'',
                 ''https://'' @ AuthToken s @ ''@github.com/'' @ GitHubOwner s @ ''/'' @ Project ci,
                 ChangeID ci] \<in> set t"
proof -
  let ?h0 = "h @ [Log (''Gerrit change '' @ ChangeID ci @
                           '' needs corresponding pull request. Creating one.'')]"
  obtain r1 h1 where sb: "syncBranch x s (filepath_Join x root (Project ci)) ci ?h0 = (r1, h1)"
    by fastforce
  from syncBranch_calls [OF sb] obtain t where
    t: "h1 = ?h0 @ t" "list_all is_local t"
       "r1 = None \<longrightarrow> Git (filepath_Join x root (Project ci))
                [''push'', ''-f'',
                 ''https://'' @ AuthToken s @ ''@github.com/'' @ GitHubOwner s @ ''/'' @ Project ci,
                 ChangeID ci] \<in> set t"
    by blast
  from assms sb have "r1 = None" and
    "h' = h1 @ [GitHubPost (github_url s (''repos/'' @ GitHubOwner s @ ''/'' @ Project ci @ ''/pulls''))
                       (NewPull (Subject ci)
                          ''Automatically created pull request. **Do not review or merge this PR.**''
                          (ChangeID ci) ''master'')]"
    by (auto simp: dispatch_def createPullRequest_def Let_def split: option.splits)
  with t show ?thesis by simp
qed

lemma dispatch_update_calls:
  assumes "ChangeInfo c = Some ci" and "PullRequest c = Some pr"
    and "SHA (Head pr) \<noteq> CurrentRevision ci"
    and "dispatch x s root c h = (r, h')"
  shows "\<exists>t. h' = h @ Log (''Gerrit change '' @ ChangeID ci @
                           '' needs sync with pull request. Syncing.'') # t \<and>
            list_all is_local t \<and>
            (r = Done \<longrightarrow>
               Git (filepath_Join x root (Project ci))
                [''push'', ''-f'',
                 ''https://'' @ AuthToken s @ ''@github.com/'' @ GitHubOwner s @ ''/'' @ Project ci,
                 ChangeID ci] \<in> set t)"
proof -
  let ?h0 = "h @ [Log (''Gerrit change '' @ ChangeID ci @
                           '' needs sync with pull request. Syncing.'')]"
  obtain r1 h1 where sb: "syncBranch x s (filepath_Join x root (Project ci)) ci ?h0 = (r1, h1)"
    by fastforce
  from syncBranch_calls [OF sb] obtain t where
    t: "h1 = ?h0 @ t" "list_all is_local t"
       "r1 = None \<longrightarrow> Git (filepath_Join x root (Project ci))
                [''push'', ''-f'',
                 ''https://'' @ AuthToken s @ ''@github.com/'' @ GitHubOwner s @ ''/'' @ Project ci,
                 ChangeID ci] \<in> set t"
    by blast
  from assms sb have "h' = h1" "r = Done \<longrightarrow> r1 = None"
    by (auto simp: dispatch_def Let_def split: option.splits)
  with t show ?thesis by simp
qed

lemma dispatch_noop:
  assumes "ChangeInfo c = Some ci" and "PullRequest c = Some pr"
    and "SHA (Head pr) = CurrentRevision ci"
  shows "dispatch x s root c h =
           syncComments x s c
             (h @ [Log (''Gerrit change '' @ ChangeID ci @ '' already synced with pull request.'')])"
  using assms by (simp add: dispatch_def)

lemma dispatch_noop_calls:
  assumes "ChangeInfo c = Some ci" and "PullRequest c = Some pr"
    and "SHA (Head pr) = CurrentRevision ci"
    and "dispatch x s root c h = (r, h')"
  shows "\<exists>t. h' = h @ Log (''Gerrit change '' @ ChangeID ci @ '' already synced with pull request.'') #
                    GitHubGet (statuses_url s pr) # t \<and>
            list_all is_Review t \<and> r \<noteq> Panic"
proof -
  from assms have "syncComments x s c
             (h @ [Log (''Gerrit change '' @ ChangeID ci @ '' already synced with pull request.'')])
           = (r, h')"
    by (simp add: dispatch_noop)
  from syncComments_calls [OF assms(2,1) this] show ?thesis
    by (auto simp: list_all_iff)
qed

lemma action_of_cases:
  "action_of c =
     (case (PullRequest c, ChangeInfo c) of
        (None, Some ci) \<Rightarrow> Some CreateAndOpen
      | (Some pr, Some ci) \<Rightarrow>
          if SHA (Head pr) = CurrentRevision ci then Some NoOp else Some UpdateAndRelay
      | (Some pr, None) \<Rightarrow> Some CloseAndDelete
      | (None, None) \<Rightarrow> None)"
  by (simp add: action_of_def classify_def same_sha_def split: option.splits)

text \<open>
  C2. Which branch of the switch runs is decided by which sides of the record are
  present and by whether the pull request's head sha is the change's current revision,
  and by nothing else. A change with no pull request is CreateAndOpen: the branch is
  synced and, when that succeeds, the request that opens the pull request is sent; a
  completed branch has made the forced push before that request. Both sides with equal
  hashes is NoOp: the result is that of \<open>syncComments\<close>, so no git command runs, but
  the statuses are fetched and reviews may be posted. Both sides with unequal hashes is
  UpdateAndRelay: the result is that of \<open>syncBranch\<close>, git and file system calls only.
  A pull request with no change is CloseAndDelete: the close request is sent, a failure
  of it is the result, and otherwise (the name having a slash) the result is that of
  \<open>deleteBranch\<close>. A record with neither side has no action and nothing is done.
\<close>

theorem C2_classification:
  assumes "dispatch x s root c h = (r, h')"
  shows "(\<forall>ci. ChangeInfo c = Some ci \<and> PullRequest c = None \<longrightarrow>
            action_of c = Some CreateAndOpen \<and>
            (r, h') =
              (case syncBranch x s (filepath_Join x root (Project ci)) ci
                      (h @ [Log (''Gerrit change '' @ ChangeID ci @
                                 '' needs corresponding pull request. Creating one.'')]) of
                 (Some err, h1) \<Rightarrow> (Failed err, h1)
               | (None, h1) \<Rightarrow>
                   (case github_post x h1
                           (github_url s (''repos/'' @ GitHubOwner s @ ''/'' @ Project ci @ ''/pulls''))
                           (NewPull (Subject ci)
                              ''Automatically created pull request. **Do not review or merge this PR.**''
                              (ChangeID ci) ''master'') of
                      Some err \<Rightarrow> Failed err
                    | None \<Rightarrow> Done,
                    h1 @ [GitHubPost
                            (github_url s (''repos/'' @ GitHubOwner s @ ''/'' @ Project ci @ ''/pulls''))
                            (NewPull (Subject ci)
                               ''Automatically created pull request. **Do not review or merge this PR.**''
                               (ChangeID ci) ''master'')])) \<and>
            (r = Done \<longrightarrow>
              (\<exists>t. h' = h @ Log (''Gerrit change '' @ ChangeID ci @
                                 '' needs corresponding pull request. Creating one.'') # t @
                      [GitHubPost (github_url s (''repos/'' @ GitHubOwner s @ ''/'' @ Project ci @ ''/pulls''))
                         (NewPull (Subject ci)
                            ''Automatically created pull request. **Do not review or merge this PR.**''
                            (ChangeID ci) ''master'')] \<and>
                    list_all is_local t \<and>
                    Git (filepath_Join x root (Project ci))
                      [''push'', ''-f'',
                       ''https://'' @ AuthToken s @ ''@github.com/'' @ GitHubOwner s @ ''/'' @ Project ci,
                       ChangeID ci] \<in> set t))) \<and>
         (\<forall>ci pr. ChangeInfo c = Some ci \<and> PullRequest c = Some pr \<and>
                  SHA (Head pr) = CurrentRevision ci \<longrightarrow>
            action_of c = Some NoOp \<and>
            (r, h') = syncComments x s c
                        (h @ [Log (''Gerrit change '' @ ChangeID ci @
                                   '' already synced with pull request.'')]) \<and>
            (\<exists>t. h' = h @ Log (''Gerrit change '' @ ChangeID ci @ '' already synced with pull request.'') #
                        GitHubGet (statuses_url s pr) # t \<and>
                  list_all is_Review t)) \<and>
         (\<forall>ci pr. ChangeInfo c = Some ci \<and> PullRequest c = Some pr \<and>
                  SHA (Head pr) \<noteq> CurrentRevision ci \<longrightarrow>
            action_of c = Some UpdateAndRelay \<and>
            (r, h') =
              (case syncBranch x s (filepath_Join x root (Project ci)) ci
                      (h @ [Log (''Gerrit change '' @ ChangeID ci @
                                 '' needs sync with pull request. Syncing.'')]) of
                 (Some err, h1) \<Rightarrow> (Failed err, h1)
               | (None, h1) \<Rightarrow> (Done, h1)) \<and>
            (\<exists>t. h' = h @ Log (''Gerrit change '' @ ChangeID ci @
                               '' needs sync with pull request. Syncing.'') # t \<and>
                  list_all is_local t \<and>
                  (r = Done \<longrightarrow>
                     Git (filepath_Join x root (Project ci))
                       [''push'', ''-f'',
                        ''https://'' @ AuthToken s @ ''@github.com/'' @ GitHubOwner s @ ''/'' @ Project ci,
                        ChangeID ci] \<in> set t))) \<and>
         (\<forall>pr. ChangeInfo c = None \<and> PullRequest c = Some pr \<longrightarrow>
            action_of c = Some CloseAndDelete \<and>
            (\<exists>t. h' = h @ Log (''Pull request '' @ Sprint x (Number pr) @
                               '' has no corresponding Gerrit change. Closing.'') #
                        GitHubPost (github_url s (''repos/'' @ Repo_Name (Head pr) @ ''/pulls/'' @
                                                  Sprint x (Number pr))) (SetState ''closed'') # t \<and>
                  list_all is_local t \<and>
                  (r = Done \<longrightarrow>
                     Git (filepath_Join x root (SplitN2 (Repo_Name (Head pr)) ! 1))
                       [''push'', ''--delete'',
                        ''https://'' @ AuthToken s @ ''@github.com/'' @ GitHubOwner s @ ''/'' @
                          SplitN2 (Repo_Name (Head pr)) ! 1,
                        Ref (Head pr)] \<in> set t)) \<and>
            (\<forall>err. github_post x
                (h @ [Log (''Pull request '' @ Sprint x (Number pr) @
                           '' has no corresponding Gerrit change. Closing.'')])
                (github_url s (''repos/'' @ Repo_Name (Head pr) @ ''/pulls/'' @ Sprint x (Number pr)))
                (SetState ''closed'') = Some err \<longrightarrow>
               r = Failed err \<and>
               h' = h @ [Log (''Pull request '' @ Sprint x (Number pr) @
                              '' has no corresponding Gerrit change. Closing.''),
                         GitHubPost (github_url s (''repos/'' @ Repo_Name (Head pr) @ ''/pulls/'' @
                                                   Sprint x (Number pr))) (SetState ''closed'')]) \<and>
            (github_post x
                (h @ [Log (''Pull request '' @ Sprint x (Number pr) @
                           '' has no corresponding Gerrit change. Closing.'')])
                (github_url s (''repos/'' @ Repo_Name (Head pr) @ ''/pulls/'' @ Sprint x (Number pr)))
                (SetState ''closed'') = None \<and>
             CHR ''/'' \<in> set (Repo_Name (Head pr)) \<longrightarrow>
               (r, h') =
                 (case deleteBranch x s (filepath_Join x root (SplitN2 (Repo_Name (Head pr)) ! 1))
                         (SplitN2 (Repo_Name (Head pr)) ! 1) (Ref (Head pr))
                         (h @ [Log (''Pull request '' @ Sprint x (Number pr) @
                                    '' has no corresponding Gerrit change. Closing.''),
                               GitHubPost (github_url s (''repos/'' @ Repo_Name (Head pr) @ ''/pulls/'' @
                                                  Sprint x (Number pr))) (SetState ''closed'')]) of
                    (Some err, h2) \<Rightarrow> (Failed err, h2)
                  | (None, h2) \<Rightarrow> (Done, h2)))) \<and>
         (ChangeInfo c = None \<and> PullRequest c = None \<longrightarrow>
            action_of c = None \<and> r = Done \<and> h' = h) \<and>
         (\<forall>c'. (ChangeInfo c' = None \<longleftrightarrow> ChangeInfo c = None) \<and>
               (PullRequest c' = None \<longleftrightarrow> PullRequest c = None) \<and>
               (same_sha c' \<longleftrightarrow> same_sha c) \<longrightarrow> action_of c' = action_of c)"
proof (intro conjI allI impI)
  fix ci assume a: "ChangeInfo c = Some ci \<and> PullRequest c = None"
  then show "action_of c = Some CreateAndOpen"
    by (simp add: action_of_cases)
  from a assms
  show "(r, h') =
              (case syncBranch x s (filepath_Join x root (Project ci)) ci
                      (h @ [Log (''Gerrit change '' @ ChangeID ci @
                                 '' needs corresponding pull request. Creating one.'')]) of
                 (Some err, h1) \<Rightarrow> (Failed err, h1)
               | (None, h1) \<Rightarrow>
                   (case github_post x h1
                           (github_url s (''repos/'' @ GitHubOwner s @ ''/'' @ Project ci @ ''/pulls''))
                           (NewPull (Subject ci)
                              ''Automatically created pull request. **Do not review or merge this PR.**''
                              (ChangeID ci) ''master'') of
                      Some err \<Rightarrow> Failed err
                    | None \<Rightarrow> Done,
                    h1 @ [GitHubPost
                            (github_url s (''repos/'' @ GitHubOwner s @ ''/'' @ Project ci @ ''/pulls''))
                            (NewPull (Subject ci)
                               ''Automatically created pull request. **Do not review or merge this PR.**''
                               (ChangeID ci) ''master'')]))"
    by (auto simp: dispatch_def createPullRequest_def Let_def split: prod.splits option.splits)
  assume "r = Done"
  with assms a dispatch_create_calls [of c ci x s root h h']
  show "\<exists>t. h' = h @ Log (''Gerrit change '' @ ChangeID ci @
                                 '' needs corresponding pull request. Creating one.'') # t @
                      [GitHubPost (github_url s (''repos/'' @ GitHubOwner s @ ''/'' @ Project ci @ ''/pulls''))
                         (NewPull (Subject ci)
                            ''Automatically created pull request. **Do not review or merge this PR.**''
                            (ChangeID ci) ''master'')] \<and>
                    list_all is_local t \<and>
                    Git (filepath_Join x root (Project ci))
                      [''push'', ''-f'',
                       ''https://'' @ AuthToken s @ ''@github.com/'' @ GitHubOwner s @ ''/'' @ Project ci,
                       ChangeID ci] \<in> set t"
    by simp
next
  fix ci pr
  assume a: "ChangeInfo c = Some ci \<and> PullRequest c = Some pr \<and> SHA (Head pr) = CurrentRevision ci"
  then show "action_of c = Some NoOp"
    by (simp add: action_of_cases)
  from a assms dispatch_noop [of c ci pr x s root h]
  show "(r, h') = syncComments x s c
                        (h @ [Log (''Gerrit change '' @ ChangeID ci @
                                   '' already synced with pull request.'')])"
    by simp
  from a assms dispatch_noop_calls [of c ci pr x s root h r h']
  show "\<exists>t. h' = h @ Log (''Gerrit change '' @ ChangeID ci @ '' already synced with pull request.'') #
                        GitHubGet (statuses_url s pr) # t \<and>
                  list_all is_Review t"
    by blast
next
  fix ci pr
  assume a: "ChangeInfo c = Some ci \<and> PullRequest c = Some pr \<and> SHA (Head pr) \<noteq> CurrentRevision ci"
  then show "action_of c = Some UpdateAndRelay"
    by (simp add: action_of_cases)
  from a assms
  show "(r, h') =
              (case syncBranch x s (filepath_Join x root (Project ci)) ci
                      (h @ [Log (''Gerrit change '' @ ChangeID ci @
                                 '' needs sync with pull request. Syncing.'')]) of
                 (Some err, h1) \<Rightarrow> (Failed err, h1)
               | (None, h1) \<Rightarrow> (Done, h1))"
    by (auto simp: dispatch_def Let_def split: prod.splits option.splits)
  from a assms dispatch_update_calls [of c ci pr x s root h r h']
  show "\<exists>t. h' = h @ Log (''Gerrit change '' @ ChangeID ci @
                               '' needs sync with pull request. Syncing.'') # t \<and>
                  list_all is_local t \<and>
                  (r = Done \<longrightarrow>
                     Git (filepath_Join x root (Project ci))
                       [''push'', ''-f'',
                        ''https://'' @ AuthToken s @ ''@github.com/'' @ GitHubOwner s @ ''/'' @ Project ci,
                        ChangeID ci] \<in> set t)"
    by blast
next
  fix pr assume a: "ChangeInfo c = None \<and> PullRequest c = Some pr"
  then show "action_of c = Some CloseAndDelete"
    by (simp add: action_of_cases)
  from a assms dispatch_close_calls [of c pr x s root h r h']
  show "\<exists>t. h' = h @ Log (''Pull request '' @ Sprint x (Number pr) @
                               '' has no corresponding Gerrit change. Closing.'') #
                        GitHubPost (github_url s (''repos/'' @ Repo_Name (Head pr) @ ''/pulls/'' @
                                                  Sprint x (Number pr))) (SetState ''closed'') # t \<and>
                  list_all is_local t \<and>
                  (r = Done \<longrightarrow>
                     Git (filepath_Join x root (SplitN2 (Repo_Name (Head pr)) ! 1))
                       [''push'', ''--delete'',
                        ''https://'' @ AuthToken s @ ''@github.com/'' @ GitHubOwner s @ ''/'' @
                          SplitN2 (Repo_Name (Head pr)) ! 1,
                        Ref (Head pr)] \<in> set t)"
    by blast
  show "r = Failed err" and
       "h' = h @ [Log (''Pull request '' @ Sprint x (Number pr) @
                              '' has no corresponding Gerrit change. Closing.''),
                         GitHubPost (github_url s (''repos/'' @ Repo_Name (Head pr) @ ''/pulls/'' @
                                                   Sprint x (Number pr))) (SetState ''closed'')]"
    if "github_post x
                (h @ [Log (''Pull request '' @ Sprint x (Number pr) @
                           '' has no corresponding Gerrit change. Closing.'')])
                (github_url s (''repos/'' @ Repo_Name (Head pr) @ ''/pulls/'' @ Sprint x (Number pr)))
                (SetState ''closed'') = Some err" for err
    using that a assms
    by (auto simp: dispatch_def closePullRequest_def Let_def split: prod.splits option.splits)
  assume "github_post x
                (h @ [Log (''Pull request '' @ Sprint x (Number pr) @
                           '' has no corresponding Gerrit change. Closing.'')])
                (github_url s (''repos/'' @ Repo_Name (Head pr) @ ''/pulls/'' @ Sprint x (Number pr)))
                (SetState ''closed'') = None \<and>
             CHR ''/'' \<in> set (Repo_Name (Head pr))"
  with a assms
  show "(r, h') =
                 (case deleteBranch x s (filepath_Join x root (SplitN2 (Repo_Name (Head pr)) ! 1))
                         (SplitN2 (Repo_Name (Head pr)) ! 1) (Ref (Head pr))
                         (h @ [Log (''Pull request '' @ Sprint x (Number pr) @
                                    '' has no corresponding Gerrit change. Closing.''),
                               GitHubPost (github_url s (''repos/'' @ Repo_Name (Head pr) @ ''/pulls/'' @
                                                  Sprint x (Number pr))) (SetState ''closed'')]) of
                    (Some err, h2) \<Rightarrow> (Failed err, h2)
                  | (None, h2) \<Rightarrow> (Done, h2))"
    by (auto simp: dispatch_def closePullRequest_def SplitN2_length Let_def
             split: prod.splits option.splits)
next
  assume a: "ChangeInfo c = None \<and> PullRequest c = None"
  then show "action_of c = None"
    by (simp add: action_of_cases)
  from a assms show "r = Done" "h' = h"
    by (simp_all add: dispatch_def)
next
  fix c'
  assume "(ChangeInfo c' = None \<longleftrightarrow> ChangeInfo c = None) \<and>
               (PullRequest c' = None \<longleftrightarrow> PullRequest c = None) \<and>
               (same_sha c' \<longleftrightarrow> same_sha c)"
  then show "action_of c' = action_of c"
    by (simp add: action_of_def)
qed

theorem C2_classification_witness:
  "action_of \<lparr>ChangeInfo = Some (change0 ''a'' ''I1'' ''r'' []), PullRequest = None\<rparr>
     = Some CreateAndOpen \<and>
   action_of \<lparr>ChangeInfo = Some (change0 ''a'' ''I1'' ''r'' []),
              PullRequest = Some (pull0 7 ''I1'' ''r'' ''o/a'')\<rparr> = Some NoOp \<and>
   action_of \<lparr>ChangeInfo = Some (change0 ''a'' ''I1'' ''r'' []),
              PullRequest = Some (pull0 7 ''I1'' ''q'' ''o/a'')\<rparr> = Some UpdateAndRelay \<and>
   action_of \<lparr>ChangeInfo = None, PullRequest = Some (pull0 7 ''I1'' ''q'' ''o/a'')\<rparr>
     = Some CloseAndDelete \<and>
   action_of \<lparr>ChangeInfo = None, PullRequest = None\<rparr> = None \<and>
   dispatch (quiet [] [] (\<lambda>u. []) (\<lambda>u. [status0 ''failure'' ''tests failed'' ''http://ci/42'']) [])
     sync0 ''/tmp''
     \<lparr>ChangeInfo = Some (change0 ''a'' ''I1'' ''r'' []), PullRequest = None\<rparr> [] =
     (Done,
      [Log ''Gerrit change I1 needs corresponding pull request. Creating one.'',
       Stat ''/tmp/a'', MkdirAll ''/tmp/a'',
       Git ''/tmp/a'' [''clone'', ''https://g/a'', ''/tmp/a''],
       Git ''/tmp/a'' [''checkout'', ''master''],
       Git ''/tmp/a'' [''checkout'', ''I1''],
       Git ''/tmp/a'' [''fetch'', ''https://g/a'', ''refs/changes/1/1''],
       Git ''/tmp/a'' [''reset'', ''--hard'', ''FETCH_HEAD''],
       Git ''/tmp/a'' [''push'', ''-f'', ''https://u:t@github.com/o/a'', ''I1''],
       GitHubPost ''https://u:t@api.github.com/repos/o/a/pulls''
         (NewPull ''subject''
            ''Automatically created pull request. **Do not review or merge this PR.**''
            ''I1'' ''master'')]) \<and>
   dispatch (quiet [] [] (\<lambda>u. []) (\<lambda>u. [status0 ''failure'' ''tests failed'' ''http://ci/42'']) [])
     sync0 ''/tmp''
     \<lparr>ChangeInfo = Some (change0 ''a'' ''I1'' ''r'' []),
      PullRequest = Some (pull0 7 ''I1'' ''r'' ''o/a'')\<rparr> [] =
     (Done,
      [Log ''Gerrit change I1 already synced with pull request.'',
       GitHubGet ''https://u:t@api.github.com/repos/o/a/commits/r/statuses'',
       SetReview ''I1'' ''r''
         \<lparr>ri_Message = ''tests failed: http://ci/42'', ri_Labels = [(''Code-Review'', - 1)]\<rparr>]) \<and>
   dispatch (quiet [] [] (\<lambda>u. []) (\<lambda>u. [status0 ''failure'' ''tests failed'' ''http://ci/42'']) [])
     sync0 ''/tmp''
     \<lparr>ChangeInfo = Some (change0 ''a'' ''I1'' ''r'' []),
      PullRequest = Some (pull0 7 ''I1'' ''q'' ''o/a'')\<rparr> [] =
     (Done,
      [Log ''Gerrit change I1 needs sync with pull request. Syncing.'',
       Stat ''/tmp/a'', MkdirAll ''/tmp/a'',
       Git ''/tmp/a'' [''clone'', ''https://g/a'', ''/tmp/a''],
       Git ''/tmp/a'' [''checkout'', ''master''],
       Git ''/tmp/a'' [''checkout'', ''I1''],
       Git ''/tmp/a'' [''fetch'', ''https://g/a'', ''refs/changes/1/1''],
       Git ''/tmp/a'' [''reset'', ''--hard'', ''FETCH_HEAD''],
       Git ''/tmp/a'' [''push'', ''-f'', ''https://u:t@github.com/o/a'', ''I1'']]) \<and>
   dispatch (quiet [] [] (\<lambda>u. []) (\<lambda>u. [status0 ''failure'' ''tests failed'' ''http://ci/42'']) [])
     sync0 ''/tmp''
     \<lparr>ChangeInfo = None, PullRequest = Some (pull0 7 ''I1'' ''q'' ''o/a'')\<rparr> [] =
     (Done,
      [Log ''Pull request 7 has no corresponding Gerrit change. Closing.'',
       GitHubPost ''https://u:t@api.github.com/repos/o/a/pulls/7'' (SetState ''closed''),
       Stat ''/tmp/a'', MkdirAll ''/tmp/a'',
       Git ''/tmp/a'' [''clone'', ''https://g/a'', ''/tmp/a''],
       Git ''/tmp/a'' [''checkout'', ''master''],
       Git ''/tmp/a'' [''push'', ''--delete'', ''https://u:t@github.com/o/a'', ''I1''],
       Git ''/tmp/a'' [''branch'', ''-D'', ''I1'']]) \<and>
   dispatch (quiet [] [] (\<lambda>u. []) (\<lambda>u. [status0 ''failure'' ''tests failed'' ''http://ci/42'']) [])
     sync0 ''/tmp'' \<lparr>ChangeInfo = None, PullRequest = None\<rparr> [] = (Done, [])"
proof -
  let ?x = "quiet [] [] (\<lambda>u. []) (\<lambda>u. [status0 ''failure'' ''tests failed'' ''http://ci/42'']) []"
  let ?ci = "change0 ''a'' ''I1'' ''r'' []"
  let ?c1 = "\<lparr>ChangeInfo = Some ?ci, PullRequest = None\<rparr>"
  let ?c2 = "\<lparr>ChangeInfo = Some ?ci, PullRequest = Some (pull0 7 ''I1'' ''r'' ''o/a'')\<rparr>"
  let ?c3 = "\<lparr>ChangeInfo = Some ?ci, PullRequest = Some (pull0 7 ''I1'' ''q'' ''o/a'')\<rparr>"
  let ?c4 = "\<lparr>ChangeInfo = None, PullRequest = Some (pull0 7 ''I1'' ''q'' ''o/a'')\<rparr>"
  let ?c5 = "\<lparr>ChangeInfo = None, PullRequest = None\<rparr>"
  have run1: "dispatch ?x sync0 ''/tmp'' ?c1 [] =
     (Done,
      [Log ''Gerrit change I1 needs corresponding pull request. Creating one.'',
       Stat ''/tmp/a'', MkdirAll ''/tmp/a'',
       Git ''/tmp/a'' [''clone'', ''https://g/a'', ''/tmp/a''],
       Git ''/tmp/a'' [''checkout'', ''master''],
       Git ''/tmp/a'' [''checkout'', ''I1''],
       Git ''/tmp/a'' [''fetch'', ''https://g/a'', ''refs/changes/1/1''],
       Git ''/tmp/a'' [''reset'', ''--hard'', ''FETCH_HEAD''],
       Git ''/tmp/a'' [''push'', ''-f'', ''https://u:t@github.com/o/a'', ''I1''],
       GitHubPost ''https://u:t@api.github.com/repos/o/a/pulls''
         (NewPull ''subject''
            ''Automatically created pull request. **Do not review or merge this PR.**''
            ''I1'' ''master'')])"
    by (simp add: dispatch_def syncBranch_def syncBranch_reset_def clone_def git_def
        createPullRequest_def quiet_def path_join_def sync0_def change0_def current_Ref_def
        github_url_def Let_def)
  have run2: "dispatch ?x sync0 ''/tmp'' ?c2 [] =
     (Done,
      [Log ''Gerrit change I1 already synced with pull request.'',
       GitHubGet ''https://u:t@api.github.com/repos/o/a/commits/r/statuses'',
       SetReview ''I1'' ''r''
         \<lparr>ri_Message = ''tests failed: http://ci/42'', ri_Labels = [(''Code-Review'', - 1)]\<rparr>])"
    by (simp add: dispatch_def syncComments_def quiet_def path_join_def sync0_def pull0_def change0_def
        status0_def github_url_def Let_def)
  have run3: "dispatch ?x sync0 ''/tmp'' ?c3 [] =
     (Done,
      [Log ''Gerrit change I1 needs sync with pull request. Syncing.'',
       Stat ''/tmp/a'', MkdirAll ''/tmp/a'',
       Git ''/tmp/a'' [''clone'', ''https://g/a'', ''/tmp/a''],
       Git ''/tmp/a'' [''checkout'', ''master''],
       Git ''/tmp/a'' [''checkout'', ''I1''],
       Git ''/tmp/a'' [''fetch'', ''https://g/a'', ''refs/changes/1/1''],
       Git ''/tmp/a'' [''reset'', ''--hard'', ''FETCH_HEAD''],
       Git ''/tmp/a'' [''push'', ''-f'', ''https://u:t@github.com/o/a'', ''I1'']])"
    by (simp add: dispatch_def syncBranch_def syncBranch_reset_def clone_def git_def
        quiet_def path_join_def sync0_def pull0_def change0_def current_Ref_def Let_def)
  have run4: "dispatch ?x sync0 ''/tmp'' ?c4 [] =
     (Done,
      [Log ''Pull request 7 has no corresponding Gerrit change. Closing.'',
       GitHubPost ''https://u:t@api.github.com/repos/o/a/pulls/7'' (SetState ''closed''),
       Stat ''/tmp/a'', MkdirAll ''/tmp/a'',
       Git ''/tmp/a'' [''clone'', ''https://g/a'', ''/tmp/a''],
       Git ''/tmp/a'' [''checkout'', ''master''],
       Git ''/tmp/a'' [''push'', ''--delete'', ''https://u:t@github.com/o/a'', ''I1''],
       Git ''/tmp/a'' [''branch'', ''-D'', ''I1'']])"
    by (simp add: dispatch_def quiet_def path_join_def sync0_def pull0_def closePullRequest_def
        github_url_def Sprint_int_def digit_def SplitN2_def deleteBranch_def clone_def git_def Let_def)
  have run5: "dispatch ?x sync0 ''/tmp'' ?c5 [] = (Done, [])"
    by (simp add: dispatch_def)
  have sha: "SHA (Head (pull0 7 ''I1'' ''q'' ''o/a'')) \<noteq> CurrentRevision ?ci"
    "SHA (Head (pull0 7 ''I1'' ''r'' ''o/a'')) = CurrentRevision ?ci"
    by (simp_all add: pull0_def change0_def)
  have a1: "action_of ?c1 = Some CreateAndOpen"
    using C2_classification [OF run1] by simp
  have a2: "action_of ?c2 = Some NoOp"
    using C2_classification [OF run2] sha by simp
  have a3: "action_of ?c3 = Some UpdateAndRelay"
    using C2_classification [OF run3] sha by simp
  have a4: "action_of ?c4 = Some CloseAndDelete"
    using C2_classification [OF run4] by simp
  have a5: "action_of ?c5 = None"
    using C2_classification [OF run5] by simp
  from a1 a2 a3 a4 a5 run1 run2 run3 run4 run5 show ?thesis
    by blast
qed

section \<open>A pass over a converged state\<close>

lemma joinRepos_calls:
  "joinRepos x s repos m h = (r, h') \<Longrightarrow> \<exists>t. h' = h @ t \<and> list_all is_Get t"
proof (induction repos arbitrary: m h)
  case Nil
  then show ?case by simp
next
  case (Cons repo repos)
  let ?get = "GitHubGet (github_url s (''repos/'' @ GitHubOwner s @ ''/'' @ repo @ ''/pulls''))"
  show ?case
  proof (cases "github_pulls x h (github_url s (''repos/'' @ GitHubOwner s @ ''/'' @ repo @ ''/pulls''))")
    case (Inl err)
    with Cons.prems have "h' = h @ [?get]"
      by (simp add: pullRequests_def Let_def)
    then show ?thesis by simp
  next
    case (Inr prs)
    with Cons.prems have "joinRepos x s repos (joinPullRequests prs m) (h @ [?get]) = (r, h')"
      by (simp add: pullRequests_def Let_def)
    from Cons.IH [OF this] obtain t where "h' = (h @ [?get]) @ t" "list_all is_Get t"
      by blast
    then show ?thesis
      by (intro exI [of _ "?get # t"]) simp
  qed
qed

lemma buildJoin_calls:
  assumes "buildJoin x s h = (r, h')"
  shows "\<exists>t. h' = h @ QueryChanges # t \<and> list_all is_Get t"
proof (cases "gerrit_QueryChanges x h")
  case (Inl err)
  with assms have "h' = h @ [QueryChanges]"
    by (auto simp: buildJoin_def gerritChanges_def)
  then show ?thesis by simp
next
  case (Inr cis)
  let ?h1 = "h @ [QueryChanges]"
  let ?get = "GitHubGet (github_url s (''users/'' @ GitHubOwner s @ ''/repos''))"
  show ?thesis
  proof (cases "github_repos x ?h1 (github_url s (''users/'' @ GitHubOwner s @ ''/repos''))")
    case (Inl err)
    with Inr assms have "h' = ?h1 @ [?get]"
      by (simp add: buildJoin_def gerritChanges_def githubRepos_def Let_def)
    then show ?thesis by simp
  next
    case (Inr repos)
    with \<open>gerrit_QueryChanges x h = Inr cis\<close> assms
    have "joinRepos x s repos (joinChanges cis Map.empty) (?h1 @ [?get]) = (r, h')"
      by (simp add: buildJoin_def gerritChanges_def githubRepos_def Let_def)
    from joinRepos_calls [OF this] obtain t where "h' = (?h1 @ [?get]) @ t" "list_all is_Get t"
      by blast
    then show ?thesis
      by (intro exI [of _ "?get # t"]) simp
  qed
qed

lemma dispatchAll_noop_calls:
  assumes "\<forall>c \<in> set cs. action_of c = Some NoOp"
    and "dispatchAll x s root cs h = (r, h')"
  shows "\<exists>t. h' = h @ t \<and> list_all (\<lambda>c. is_Log c \<or> is_Get c \<or> is_Review c) t \<and> r \<noteq> Panic"
  using assms
proof (induction cs arbitrary: h)
  case Nil
  then show ?case by auto
next
  case (Cons c cs)
  from Cons.prems(1) have "action_of c = Some NoOp"
    by simp
  then obtain ci pr where c: "ChangeInfo c = Some ci" "PullRequest c = Some pr"
      "SHA (Head pr) = CurrentRevision ci"
    by (auto simp: action_of_cases split: option.splits if_splits)
  obtain r1 h1 where d: "dispatch x s root c h = (r1, h1)"
    by fastforce
  from dispatch_noop_calls [OF c d] obtain t1 where
    t1: "h1 = h @ Log (''Gerrit change '' @ ChangeID ci @ '' already synced with pull request.'') #
                    GitHubGet (statuses_url s pr) # t1" "list_all is_Review t1" "r1 \<noteq> Panic"
    by blast
  have t1': "list_all (\<lambda>c. is_Log c \<or> is_Get c \<or> is_Review c)
               (Log (''Gerrit change '' @ ChangeID ci @ '' already synced with pull request.'') #
                    GitHubGet (statuses_url s pr) # t1)"
    using t1(2) by (auto simp: list_all_iff)
  show ?case
  proof (cases r1)
    case Done
    with Cons.prems(2) d have "dispatchAll x s root cs h1 = (r, h')"
      by simp
    from Cons.IH [OF _ this] Cons.prems(1) obtain t where
      "h' = h1 @ t" "list_all (\<lambda>c. is_Log c \<or> is_Get c \<or> is_Review c) t" "r \<noteq> Panic"
      by auto
    with t1(1) t1' show ?thesis
      by (intro exI [of _ "Log (''Gerrit change '' @ ChangeID ci @ '' already synced with pull request.'') #
                    GitHubGet (statuses_url s pr) # t1 @ t"]) simp
  next
    case (Failed err)
    with Cons.prems(2) d have "r = Failed err" "h' = h1"
      by simp_all
    with t1(1) t1' show ?thesis
      by blast
  next
    case Panic
    with t1(3) show ?thesis by simp
  qed
qed

lemma set_ranged: "set (ranged x m) \<subseteq> ran m"
  by (auto simp: ranged_def map_filter_def ran_def)

text \<open>In a converged state every record of the map has both sides at the same revision.\<close>

lemma converged_join:
  assumes "distinct (map (\<lambda>pr. Ref (Head pr)) (filter (\<lambda>pr. isGerritChange (Ref (Head pr))) prs))"
    and "\<forall>ci \<in> set cis. \<exists>pr \<in> set prs. isGerritChange (Ref (Head pr)) \<and>
            Ref (Head pr) = ChangeID ci \<and> SHA (Head pr) = CurrentRevision ci"
    and "\<forall>pr \<in> set prs. isGerritChange (Ref (Head pr)) \<longrightarrow> Ref (Head pr) \<in> ChangeID ` set cis"
    and "joinPullRequests prs (joinChanges cis Map.empty) k = Some c"
  shows "action_of c = Some NoOp"
proof -
  let ?P = "\<lambda>pr. isGerritChange (Ref (Head pr)) \<and> Ref (Head pr) = k"
  have inj: "inj_on (\<lambda>pr. Ref (Head pr)) (set (filter (\<lambda>pr. isGerritChange (Ref (Head pr))) prs))"
    using assms(1) by (simp add: distinct_map)
  have "k \<in> dom (joinPullRequests prs (joinChanges cis Map.empty))"
    using assms(4) by blast
  then have "k \<in> ChangeID ` set cis"
    using assms(3) by (auto simp: dom_joinPullRequests dom_joinChanges)
  then have "find (\<lambda>ci. ChangeID ci = k) (rev cis) \<noteq> None"
    by (auto simp: find_None_iff)
  then obtain ci where fc: "find (\<lambda>ci. ChangeID ci = k) (rev cis) = Some ci"
    by blast
  from find_SomeD [OF fc] have ci: "ci \<in> set cis" "ChangeID ci = k"
    by simp_all
  with assms(2) obtain pr where pr: "pr \<in> set prs" "isGerritChange (Ref (Head pr))"
      "Ref (Head pr) = k" "SHA (Head pr) = CurrentRevision ci"
    by blast
  then have "find ?P (rev prs) \<noteq> None"
    by (auto simp: find_None_iff)
  then obtain pr' where fp: "find ?P (rev prs) = Some pr'"
    by blast
  from find_SomeD [OF fp] have "pr' \<in> set prs" "isGerritChange (Ref (Head pr'))"
      "Ref (Head pr') = k"
    by auto
  with pr inj have "pr' = pr"
    by (auto dest!: inj_onD)
  with assms(4) fc fp have "c = \<lparr>ChangeInfo = Some ci, PullRequest = Some pr\<rparr>"
    by (simp add: joinPullRequests_apply joinChanges_apply)
  with pr(4) show ?thesis
    by (simp add: action_of_cases)
qed

text \<open>
  From a converged state a pass moves nothing. Take a pass whose fetched state is
  converged: every fetched change has a fetched pull request that passes the prefix
  test, has the change's id as head ref and the change's current revision as head sha;
  every fetched pull request that passes the prefix test has the id of a fetched change
  as head ref; and no two such pull requests share a head ref. Then every record of the
  map is NoOp, and the pass runs no git command, touches no directory and sends no POST
  to GitHub: it only lists, logs, fetches statuses and posts reviews.
\<close>

lemma converged_pass_moves_nothing:
  assumes "buildJoin x s h = (Inr m, h1)"
    and "distinct (map (\<lambda>pr. Ref (Head pr))
            (filter (\<lambda>pr. isGerritChange (Ref (Head pr))) (fetchedPullRequests x s h)))"
    and "\<forall>ci \<in> set (fetchedChanges x h). \<exists>pr \<in> set (fetchedPullRequests x s h).
            isGerritChange (Ref (Head pr)) \<and>
            Ref (Head pr) = ChangeID ci \<and> SHA (Head pr) = CurrentRevision ci"
    and "\<forall>pr \<in> set (fetchedPullRequests x s h).
            isGerritChange (Ref (Head pr)) \<longrightarrow> Ref (Head pr) \<in> ChangeID ` set (fetchedChanges x h)"
    and "poll x s root h = (r, h')"
  shows "(\<forall>k c. m k = Some c \<longrightarrow> action_of c = Some NoOp) \<and>
         list_all (\<lambda>c. \<not> is_local c \<and> \<not> is_Post c) (drop (length h) h') \<and> r \<noteq> Panic"
proof -
  note m = buildJoin_result [OF assms(1)]
  have noop: "action_of c = Some NoOp" if "m k = Some c" for k c
    using converged_join [OF assms(2-4)] that unfolding m by blast
  then have all: "\<forall>c \<in> set (ranged x m). action_of c = Some NoOp"
    using set_ranged [of x m] by (auto simp: ran_def)
  from buildJoin_calls [OF assms(1)] obtain t1 where
    t1: "h1 = h @ QueryChanges # t1" "list_all is_Get t1"
    by blast
  from assms(1,5) have "dispatchAll x s root (ranged x m) h1 = (r, h')"
    by (simp add: poll_def)
  from dispatchAll_noop_calls [OF all this] obtain t2 where
    t2: "h' = h1 @ t2" "list_all (\<lambda>c. is_Log c \<or> is_Get c \<or> is_Review c) t2" "r \<noteq> Panic"
    by blast
  have "\<not> is_local c \<and> \<not> is_Post c" if "is_Log c \<or> is_Get c \<or> is_Review c" for c
    using that by (cases c) auto
  with t1 t2 have "list_all (\<lambda>c. \<not> is_local c \<and> \<not> is_Post c) (drop (length h) h')"
    by (auto simp: list_all_iff)
  with noop t2(3) show ?thesis
    by blast
qed

text \<open>
  C3. One pass does not always converge the state. The change I1 of project a is open at
  revision r; repository b holds a pull request whose head ref is I1, at sha q;
  repository a holds none. The map is keyed by head ref alone, so the pull request of b
  joins the change of a; the hashes differ, and the pass pushes the branch to repository
  a. That changes neither the pull request nor the change, so Gerrit and GitHub answer
  the second pass as they answered the first: the record is UpdateAndRelay again and the
  second pass pushes again, as will every later pass, and no pull request is opened for
  the change in repository a.
\<close>

theorem C3_second_pass_pushes_again:
  "poll (quiet [change0 ''a'' ''I1'' ''r'' []] [''a'', ''b'']
           (\<lambda>u. if u = ''https://u:t@api.github.com/repos/o/b/pulls''
                then [pull0 7 ''I1'' ''q'' ''o/b''] else [])
           (\<lambda>u. []) [''I1''])
     sync0 ''/tmp'' [] =
     (Done,
      [QueryChanges, GitHubGet ''https://u:t@api.github.com/users/o/repos'',
       GitHubGet ''https://u:t@api.github.com/repos/o/a/pulls'',
       GitHubGet ''https://u:t@api.github.com/repos/o/b/pulls'',
       Log ''Gerrit change I1 needs sync with pull request. Syncing.'',
       Stat ''/tmp/a'', MkdirAll ''/tmp/a'',
       Git ''/tmp/a'' [''clone'', ''https://g/a'', ''/tmp/a''],
       Git ''/tmp/a'' [''checkout'', ''master''],
       Git ''/tmp/a'' [''checkout'', ''I1''],
       Git ''/tmp/a'' [''fetch'', ''https://g/a'', ''refs/changes/1/1''],
       Git ''/tmp/a'' [''reset'', ''--hard'', ''FETCH_HEAD''],
       Git ''/tmp/a'' [''push'', ''-f'', ''https://u:t@github.com/o/a'', ''I1'']]) \<and>
   poll (quiet [change0 ''a'' ''I1'' ''r'' []] [''a'', ''b'']
           (\<lambda>u. if u = ''https://u:t@api.github.com/repos/o/b/pulls''
                then [pull0 7 ''I1'' ''q'' ''o/b''] else [])
           (\<lambda>u. []) [''I1''])
     sync0 ''/tmp''
     [QueryChanges, GitHubGet ''https://u:t@api.github.com/users/o/repos'',
       GitHubGet ''https://u:t@api.github.com/repos/o/a/pulls'',
       GitHubGet ''https://u:t@api.github.com/repos/o/b/pulls'',
       Log ''Gerrit change I1 needs sync with pull request. Syncing.'',
       Stat ''/tmp/a'', MkdirAll ''/tmp/a'',
       Git ''/tmp/a'' [''clone'', ''https://g/a'', ''/tmp/a''],
       Git ''/tmp/a'' [''checkout'', ''master''],
       Git ''/tmp/a'' [''checkout'', ''I1''],
       Git ''/tmp/a'' [''fetch'', ''https://g/a'', ''refs/changes/1/1''],
       Git ''/tmp/a'' [''reset'', ''--hard'', ''FETCH_HEAD''],
       Git ''/tmp/a'' [''push'', ''-f'', ''https://u:t@github.com/o/a'', ''I1'']] =
     (Done,
      [QueryChanges, GitHubGet ''https://u:t@api.github.com/users/o/repos'',
       GitHubGet ''https://u:t@api.github.com/repos/o/a/pulls'',
       GitHubGet ''https://u:t@api.github.com/repos/o/b/pulls'',
       Log ''Gerrit change I1 needs sync with pull request. Syncing.'',
       Stat ''/tmp/a'', MkdirAll ''/tmp/a'',
       Git ''/tmp/a'' [''clone'', ''https://g/a'', ''/tmp/a''],
       Git ''/tmp/a'' [''checkout'', ''master''],
       Git ''/tmp/a'' [''checkout'', ''I1''],
       Git ''/tmp/a'' [''fetch'', ''https://g/a'', ''refs/changes/1/1''],
       Git ''/tmp/a'' [''reset'', ''--hard'', ''FETCH_HEAD''],
       Git ''/tmp/a'' [''push'', ''-f'', ''https://u:t@github.com/o/a'', ''I1''],
       QueryChanges, GitHubGet ''https://u:t@api.github.com/users/o/repos'',
       GitHubGet ''https://u:t@api.github.com/repos/o/a/pulls'',
       GitHubGet ''https://u:t@api.github.com/repos/o/b/pulls'',
       Log ''Gerrit change I1 needs sync with pull request. Syncing.'',
       Stat ''/tmp/a'', Git ''/tmp/a'' [''checkout'', ''master''],
       Git ''/tmp/a'' [''pull''], Git ''/tmp/a'' [''checkout'', ''I1''],
       Git ''/tmp/a'' [''fetch'', ''https://g/a'', ''refs/changes/1/1''],
       Git ''/tmp/a'' [''reset'', ''--hard'', ''FETCH_HEAD''],
       Git ''/tmp/a'' [''push'', ''-f'', ''https://u:t@github.com/o/a'', ''I1'']])"
proof -
  let ?ci = "change0 ''a'' ''I1'' ''r'' []"
  let ?pr = "pull0 7 ''I1'' ''q'' ''o/b''"
  let ?x = "quiet [?ci] [''a'', ''b'']
           (\<lambda>u. if u = ''https://u:t@api.github.com/repos/o/b/pulls'' then [?pr] else [])
           (\<lambda>u. []) [''I1'']"
  let ?c = "\<lparr>ChangeInfo = Some ?ci, PullRequest = Some ?pr\<rparr>"
  let ?gets = "[QueryChanges, GitHubGet ''https://u:t@api.github.com/users/o/repos'',
       GitHubGet ''https://u:t@api.github.com/repos/o/a/pulls'',
       GitHubGet ''https://u:t@api.github.com/repos/o/b/pulls'']"
  have join: "buildJoin ?x sync0 h = (Inr (joinPullRequests [?pr] (joinChanges [?ci] Map.empty)), h @ ?gets)"
    for h
    by (simp add: buildJoin_def gerritChanges_def githubRepos_def pullRequests_def quiet_def path_join_def
        sync0_def github_url_def)
  have val: "joinPullRequests [?pr] (joinChanges [?ci] Map.empty) ''I1'' = Some ?c"
    by (simp add: joinPullRequests_def joinPullRequest_def joinChanges_def pull0_def change0_def
        isGerritChange_def)
  have ranged: "ranged ?x (joinPullRequests [?pr] (joinChanges [?ci] Map.empty)) = [?c]"
    by (simp add: ranged_def quiet_def path_join_def val map_filter_def)
  have p: "poll ?x sync0 ''/tmp'' h = dispatchAll ?x sync0 ''/tmp'' [?c] (h @ ?gets)" for h
    by (simp only: poll_def join ranged prod.case sum.case)
  have d1: "dispatch ?x sync0 ''/tmp'' ?c ?gets =
     (Done, ?gets @
      [Log ''Gerrit change I1 needs sync with pull request. Syncing.'',
       Stat ''/tmp/a'', MkdirAll ''/tmp/a'',
       Git ''/tmp/a'' [''clone'', ''https://g/a'', ''/tmp/a''],
       Git ''/tmp/a'' [''checkout'', ''master''],
       Git ''/tmp/a'' [''checkout'', ''I1''],
       Git ''/tmp/a'' [''fetch'', ''https://g/a'', ''refs/changes/1/1''],
       Git ''/tmp/a'' [''reset'', ''--hard'', ''FETCH_HEAD''],
       Git ''/tmp/a'' [''push'', ''-f'', ''https://u:t@github.com/o/a'', ''I1'']])"
    by (simp add: dispatch_def syncBranch_def syncBranch_reset_def clone_def git_def quiet_def path_join_def
        sync0_def pull0_def change0_def current_Ref_def Let_def)
  let ?h1 = "?gets @
      [Log ''Gerrit change I1 needs sync with pull request. Syncing.'',
       Stat ''/tmp/a'', MkdirAll ''/tmp/a'',
       Git ''/tmp/a'' [''clone'', ''https://g/a'', ''/tmp/a''],
       Git ''/tmp/a'' [''checkout'', ''master''],
       Git ''/tmp/a'' [''checkout'', ''I1''],
       Git ''/tmp/a'' [''fetch'', ''https://g/a'', ''refs/changes/1/1''],
       Git ''/tmp/a'' [''reset'', ''--hard'', ''FETCH_HEAD''],
       Git ''/tmp/a'' [''push'', ''-f'', ''https://u:t@github.com/o/a'', ''I1'']]"
  have d2: "dispatch ?x sync0 ''/tmp'' ?c (?h1 @ ?gets) =
     (Done, ?h1 @ ?gets @
      [Log ''Gerrit change I1 needs sync with pull request. Syncing.'',
       Stat ''/tmp/a'', Git ''/tmp/a'' [''checkout'', ''master''],
       Git ''/tmp/a'' [''pull''], Git ''/tmp/a'' [''checkout'', ''I1''],
       Git ''/tmp/a'' [''fetch'', ''https://g/a'', ''refs/changes/1/1''],
       Git ''/tmp/a'' [''reset'', ''--hard'', ''FETCH_HEAD''],
       Git ''/tmp/a'' [''push'', ''-f'', ''https://u:t@github.com/o/a'', ''I1'']])"
    by (simp add: dispatch_def syncBranch_def syncBranch_reset_def clone_def git_def quiet_def path_join_def
        sync0_def pull0_def change0_def current_Ref_def Let_def)
  have r1: "poll ?x sync0 ''/tmp'' [] = (Done, ?h1)"
    using d1 by (simp add: p)
  have r2: "poll ?x sync0 ''/tmp'' ?h1 = (Done, ?h1 @ ?gets @
      [Log ''Gerrit change I1 needs sync with pull request. Syncing.'',
       Stat ''/tmp/a'', Git ''/tmp/a'' [''checkout'', ''master''],
       Git ''/tmp/a'' [''pull''], Git ''/tmp/a'' [''checkout'', ''I1''],
       Git ''/tmp/a'' [''fetch'', ''https://g/a'', ''refs/changes/1/1''],
       Git ''/tmp/a'' [''reset'', ''--hard'', ''FETCH_HEAD''],
       Git ''/tmp/a'' [''push'', ''-f'', ''https://u:t@github.com/o/a'', ''I1'']])"
    using d2 by (simp add: p)
  from r1 r2 show ?thesis
    by simp
qed

section \<open>What a completed pass has done for a record\<close>

lemma relay_grows: "relay x ci statuses h = (r, h') \<Longrightarrow> \<exists>t. h' = h @ t"
proof (induction statuses arbitrary: h)
  case Nil
  then show ?case by simp
next
  case (Cons stat statuses)
  show ?case
  proof (cases ci)
    case None
    with Cons.prems Cons.IH [of h] show ?thesis
      by (auto simp: Let_def split: if_splits)
  next
    case (Some ci')
    from Cons.prems Some consider
        "relay x ci statuses h = (r, h')"
      | input where "h' = h @ [SetReview (ChangeID ci') (CurrentRevision ci') input]"
      | input where "relay x ci statuses
                       (h @ [SetReview (ChangeID ci') (CurrentRevision ci') input]) = (r, h')"
      by (auto simp: Let_def split: if_splits option.splits)
    then show ?thesis
    proof cases
      case 1
      from Cons.IH [OF this] show ?thesis .
    next
      case 2
      then show ?thesis by blast
    next
      case 3
      from Cons.IH [OF this] show ?thesis by auto
    qed
  qed
qed

lemma syncComments_grows: "syncComments x s c h = (r, h') \<Longrightarrow> \<exists>t. h' = h @ t"
  by (auto simp: syncComments_def Let_def split: option.splits sum.splits dest!: relay_grows)

lemma dispatch_grows:
  assumes "dispatch x s root c h = (r, h')"
  shows "\<exists>t. h' = h @ t"
proof (cases "PullRequest c")
  case None
  show ?thesis
  proof (cases "ChangeInfo c")
    case None
    with \<open>PullRequest c = None\<close> assms show ?thesis
      by (simp add: dispatch_def)
  next
    case (Some ci)
    let ?h0 = "h @ [Log (''Gerrit change '' @ ChangeID ci @
                           '' needs corresponding pull request. Creating one.'')]"
    obtain r1 h1 where sb: "syncBranch x s (filepath_Join x root (Project ci)) ci ?h0 = (r1, h1)"
      by fastforce
    from syncBranch_calls [OF sb] obtain t where "h1 = ?h0 @ t"
      by blast
    with assms sb Some \<open>PullRequest c = None\<close> show ?thesis
      by (cases r1) (auto simp: dispatch_def createPullRequest_def Let_def split: option.splits)
  qed
next
  case (Some pr)
  show ?thesis
  proof (cases "ChangeInfo c")
    case None
    from dispatch_close_calls [OF Some None assms] show ?thesis
      by auto
  next
    case ci: (Some ci)
    show ?thesis
    proof (cases "SHA (Head pr) = CurrentRevision ci")
      case True
      from dispatch_noop_calls [OF ci Some True assms] show ?thesis
        by auto
    next
      case False
      from dispatch_update_calls [OF ci Some False assms] show ?thesis
        by auto
    qed
  qed
qed

lemma dispatchAll_grows: "dispatchAll x s root cs h = (r, h') \<Longrightarrow> \<exists>t. h' = h @ t"
proof (induction cs arbitrary: h)
  case Nil
  then show ?case by simp
next
  case (Cons c cs)
  obtain r1 h1 where d: "dispatch x s root c h = (r1, h1)"
    by fastforce
  from dispatch_grows [OF d] obtain t1 where t1: "h1 = h @ t1"
    by blast
  show ?case
  proof (cases r1)
    case Done
    with Cons.prems d have "dispatchAll x s root cs h1 = (r, h')"
      by simp
    from Cons.IH [OF this] t1 show ?thesis
      by auto
  next
    case (Failed err)
    with Cons.prems d t1 show ?thesis by auto
  next
    case Panic
    with Cons.prems d t1 show ?thesis by auto
  qed
qed

text \<open>A pass that completes has run the switch, to completion, on every record it ranged over.\<close>

lemma dispatchAll_Done_member:
  assumes "dispatchAll x s root cs h = (Done, h')" and "c \<in> set cs"
  shows "\<exists>a h3 b. dispatch x s root c (h @ a) = (Done, h3) \<and> h' = h3 @ b"
  using assms
proof (induction cs arbitrary: h)
  case Nil
  then show ?case by simp
next
  case (Cons c' cs)
  obtain r1 h1 where d: "dispatch x s root c' h = (r1, h1)"
    by fastforce
  with Cons.prems(1) have r1: "r1 = Done" and rest: "dispatchAll x s root cs h1 = (Done, h')"
    by (cases r1; simp)+
  from dispatch_grows [OF d] obtain t1 where t1: "h1 = h @ t1"
    by blast
  show ?case
  proof (cases "c = c'")
    case True
    from dispatchAll_grows [OF rest] obtain b where "h' = h1 @ b"
      by blast
    with d r1 True show ?thesis
      by (intro exI [of _ "[]"] exI [of _ h1] exI [of _ b]) simp
  next
    case False
    with Cons.prems(2) have "c \<in> set cs" by simp
    from Cons.IH [OF rest this] obtain a h3 b where
      "dispatch x s root c (h1 @ a) = (Done, h3)" "h' = h3 @ b"
      by blast
    with t1 show ?thesis
      by (intro exI [of _ "t1 @ a"] exI [of _ h3] exI [of _ b]) simp
  qed
qed

lemma ranged_member:
  assumes "m k = Some c" and "k \<in> set (range_order x m)"
  shows "c \<in> set (ranged x m)"
  using assms by (force simp: ranged_def map_filter_def)

lemma find_append_None: "find P xs = None \<Longrightarrow> find P (xs @ ys) = find P ys"
  by (induction xs) (auto split: if_splits)

text \<open>The pull request stored under a head ref is the last fetched one with that ref.\<close>

lemma join_last:
  assumes "prs = before @ pr # after" and "\<forall>p \<in> set after. Ref (Head p) \<noteq> Ref (Head pr)"
    and "isGerritChange (Ref (Head pr))"
  shows "joinPullRequests prs m (Ref (Head pr)) =
           Some \<lparr>ChangeInfo = (case m (Ref (Head pr)) of None \<Rightarrow> None | Some c \<Rightarrow> ChangeInfo c),
                 PullRequest = Some pr\<rparr>"
proof -
  let ?P = "\<lambda>p. isGerritChange (Ref (Head p)) \<and> Ref (Head p) = Ref (Head pr)"
  from assms(2) have "find ?P (rev after) = None"
    by (simp add: find_None_iff)
  with assms(3) have "find ?P (rev prs) = Some pr"
    by (simp add: assms(1) find_append_None)
  then show ?thesis
    by (simp add: joinPullRequests_apply)
qed

lemma join_pull_request_passes:
  assumes "joinPullRequests prs (joinChanges cis Map.empty) k = Some c" and "PullRequest c = Some pr"
  shows "pr \<in> set prs \<and> isGerritChange (Ref (Head pr)) \<and> Ref (Head pr) = k"
proof (cases "find (\<lambda>p. isGerritChange (Ref (Head p)) \<and> Ref (Head p) = k) (rev prs)")
  case None
  with assms show ?thesis
    by (auto simp: joinPullRequests_apply joinChanges_apply split: option.splits)
next
  case (Some p)
  with assms have "p = pr"
    by (auto simp: joinPullRequests_apply)
  with find_SomeD [OF Some] show ?thesis
    by auto
qed

text \<open>
  C9 (amended). The prefix test is that the head ref begins with the letter I, nothing
  more. Take a fetched pull request that no later fetched pull request shares its head
  ref with. It is the pull request of some record of the map exactly when its head ref
  begins with I. When it does and no fetched change has that ref as id, the record under
  that ref holds no change and this pull request, it is classified CloseAndDelete, and a
  pass that completes, ranging over every key, has sent the close request for this pull
  request and pushed the deletion of its branch. The witness is a branch named
  Improve-docs.
\<close>

theorem C9_prefix_is_single_letter:
  assumes "poll x s root h = (Done, h')"
    and "buildJoin x s h = (Inr m, h1)"
    and "dom m \<subseteq> set (range_order x m)"
    and "fetchedPullRequests x s h = before @ pr # after"
    and "\<forall>p \<in> set after. Ref (Head p) \<noteq> Ref (Head pr)"
  shows "(isGerritChange (Ref (Head pr)) \<longleftrightarrow> (\<exists>rest. Ref (Head pr) = CHR ''I'' # rest)) \<and>
         ((\<exists>k c. m k = Some c \<and> PullRequest c = Some pr) \<longleftrightarrow> isGerritChange (Ref (Head pr))) \<and>
         (isGerritChange (Ref (Head pr)) \<and>
          Ref (Head pr) \<notin> ChangeID ` set (fetchedChanges x h) \<longrightarrow>
            m (Ref (Head pr)) = Some \<lparr>ChangeInfo = None, PullRequest = Some pr\<rparr> \<and>
            action_of \<lparr>ChangeInfo = None, PullRequest = Some pr\<rparr> = Some CloseAndDelete \<and>
            GitHubPost (github_url s (''repos/'' @ Repo_Name (Head pr) @ ''/pulls/'' @
                                      Sprint x (Number pr))) (SetState ''closed'')
              \<in> set (drop (length h) h') \<and>
            Git (filepath_Join x root (SplitN2 (Repo_Name (Head pr)) ! 1))
                [''push'', ''--delete'',
                 ''https://'' @ AuthToken s @ ''@github.com/'' @ GitHubOwner s @ ''/'' @
                   SplitN2 (Repo_Name (Head pr)) ! 1,
                 Ref (Head pr)] \<in> set (drop (length h) h'))"
proof (intro conjI impI)
  show "isGerritChange (Ref (Head pr)) \<longleftrightarrow> (\<exists>rest. Ref (Head pr) = CHR ''I'' # rest)"
    by (rule isGerritChange_iff)
next
  note m = buildJoin_result [OF assms(2)]
  show "(\<exists>k c. m k = Some c \<and> PullRequest c = Some pr) \<longleftrightarrow> isGerritChange (Ref (Head pr))"
  proof
    assume "\<exists>k c. m k = Some c \<and> PullRequest c = Some pr"
    then show "isGerritChange (Ref (Head pr))"
      unfolding m using join_pull_request_passes by blast
  next
    assume "isGerritChange (Ref (Head pr))"
    from join_last [OF assms(4,5) this, of "joinChanges (fetchedChanges x h) Map.empty"]
    show "\<exists>k c. m k = Some c \<and> PullRequest c = Some pr"
      unfolding m by (intro exI [of _ "Ref (Head pr)"]) simp
  qed
next
  note m = buildJoin_result [OF assms(2)]
  let ?c = "\<lparr>ChangeInfo = None, PullRequest = Some pr\<rparr>"
  assume a: "isGerritChange (Ref (Head pr)) \<and>
          Ref (Head pr) \<notin> ChangeID ` set (fetchedChanges x h)"
  then have none: "joinChanges (fetchedChanges x h) Map.empty (Ref (Head pr)) = None"
    using dom_joinChanges [of "fetchedChanges x h" Map.empty] by auto
  from a join_last [OF assms(4,5), of "joinChanges (fetchedChanges x h) Map.empty"]
  show entry: "m (Ref (Head pr)) = Some ?c"
    unfolding m by (simp add: none)
  show "action_of ?c = Some CloseAndDelete"
    by (simp add: action_of_cases)
  from entry assms(3) have "?c \<in> set (ranged x m)"
    by (intro ranged_member [of m "Ref (Head pr)"]) auto
  moreover from assms(1,2) have "dispatchAll x s root (ranged x m) h1 = (Done, h')"
    by (simp add: poll_def)
  ultimately obtain a' h3 b where
    d: "dispatch x s root ?c (h1 @ a') = (Done, h3)" and h': "h' = h3 @ b"
    using dispatchAll_Done_member by blast
  from buildJoin_calls [OF assms(2)] obtain t1 where h1: "h1 = h @ QueryChanges # t1"
    by blast
  from dispatch_close_calls [OF _ _ d, of pr] obtain t where
    t: "h3 = (h1 @ a') @ Log (''Pull request '' @ Sprint x (Number pr) @
                           '' has no corresponding Gerrit change. Closing.'') #
                    GitHubPost (github_url s (''repos/'' @ Repo_Name (Head pr) @ ''/pulls/'' @
                                              Sprint x (Number pr))) (SetState ''closed'') # t"
       "Git (filepath_Join x root (SplitN2 (Repo_Name (Head pr)) ! 1))
                   [''push'', ''--delete'',
                    ''https://'' @ AuthToken s @ ''@github.com/'' @ GitHubOwner s @ ''/'' @
                      SplitN2 (Repo_Name (Head pr)) ! 1,
                    Ref (Head pr)] \<in> set t"
    by auto
  from t h' h1
  show "GitHubPost (github_url s (''repos/'' @ Repo_Name (Head pr) @ ''/pulls/'' @
                                      Sprint x (Number pr))) (SetState ''closed'')
              \<in> set (drop (length h) h')"
    and "Git (filepath_Join x root (SplitN2 (Repo_Name (Head pr)) ! 1))
                [''push'', ''--delete'',
                 ''https://'' @ AuthToken s @ ''@github.com/'' @ GitHubOwner s @ ''/'' @
                   SplitN2 (Repo_Name (Head pr)) ! 1,
                 Ref (Head pr)] \<in> set (drop (length h) h')"
    by simp_all
qed

theorem C9_prefix_is_single_letter_witness:
  "poll (quiet [] [''docs''] (\<lambda>u. [pull0 3 ''Improve-docs'' ''abc'' ''o/docs'']) (\<lambda>u. [])
           [''Improve-docs'']) sync0 ''/tmp'' [] =
     (Done,
      [QueryChanges, GitHubGet ''https://u:t@api.github.com/users/o/repos'',
       GitHubGet ''https://u:t@api.github.com/repos/o/docs/pulls'',
       Log ''Pull request 3 has no corresponding Gerrit change. Closing.'',
       GitHubPost ''https://u:t@api.github.com/repos/o/docs/pulls/3'' (SetState ''closed''),
       Stat ''/tmp/docs'', MkdirAll ''/tmp/docs'',
       Git ''/tmp/docs'' [''clone'', ''https://g/docs'', ''/tmp/docs''],
       Git ''/tmp/docs'' [''checkout'', ''master''],
       Git ''/tmp/docs'' [''push'', ''--delete'', ''https://u:t@github.com/o/docs'', ''Improve-docs''],
       Git ''/tmp/docs'' [''branch'', ''-D'', ''Improve-docs'']]) \<and>
   isGerritChange ''Improve-docs'' \<and>
   action_of \<lparr>ChangeInfo = None, PullRequest = Some (pull0 3 ''Improve-docs'' ''abc'' ''o/docs'')\<rparr>
     = Some CloseAndDelete \<and>
   GitHubPost ''https://u:t@api.github.com/repos/o/docs/pulls/3'' (SetState ''closed'')
     \<in> set (snd (poll (quiet [] [''docs''] (\<lambda>u. [pull0 3 ''Improve-docs'' ''abc'' ''o/docs''])
                          (\<lambda>u. []) [''Improve-docs'']) sync0 ''/tmp'' [])) \<and>
   Git ''/tmp/docs'' [''push'', ''--delete'', ''https://u:t@github.com/o/docs'', ''Improve-docs'']
     \<in> set (snd (poll (quiet [] [''docs''] (\<lambda>u. [pull0 3 ''Improve-docs'' ''abc'' ''o/docs''])
                          (\<lambda>u. []) [''Improve-docs'']) sync0 ''/tmp'' []))"
proof -
  let ?pr = "pull0 3 ''Improve-docs'' ''abc'' ''o/docs''"
  let ?x = "quiet [] [''docs''] (\<lambda>u. [?pr]) (\<lambda>u. []) [''Improve-docs'']"
  let ?m = "joinPullRequests [?pr] Map.empty"
  let ?h1 = "[QueryChanges, GitHubGet ''https://u:t@api.github.com/users/o/repos'',
              GitHubGet ''https://u:t@api.github.com/repos/o/docs/pulls'']"
  let ?h' = "[QueryChanges, GitHubGet ''https://u:t@api.github.com/users/o/repos'',
       GitHubGet ''https://u:t@api.github.com/repos/o/docs/pulls'',
       Log ''Pull request 3 has no corresponding Gerrit change. Closing.'',
       GitHubPost ''https://u:t@api.github.com/repos/o/docs/pulls/3'' (SetState ''closed''),
       Stat ''/tmp/docs'', MkdirAll ''/tmp/docs'',
       Git ''/tmp/docs'' [''clone'', ''https://g/docs'', ''/tmp/docs''],
       Git ''/tmp/docs'' [''checkout'', ''master''],
       Git ''/tmp/docs'' [''push'', ''--delete'', ''https://u:t@github.com/o/docs'', ''Improve-docs''],
       Git ''/tmp/docs'' [''branch'', ''-D'', ''Improve-docs'']]"
  have run: "buildJoin ?x sync0 [] = (Inr ?m, ?h1)"
    by (simp add: buildJoin_def gerritChanges_def githubRepos_def pullRequests_def quiet_def
        sync0_def github_url_def)
  have fc: "fetchedChanges ?x [] = []"
    by (simp add: fetchedChanges_def quiet_def)
  have fp: "fetchedPullRequests ?x sync0 [] = [] @ ?pr # []"
    by (simp add: fetchedPullRequests_def githubRepos_def pullRequests_def quiet_def)
  have ref: "Ref (Head ?pr) = ''Improve-docs''" "isGerritChange ''Improve-docs''"
    by (simp_all add: pull0_def isGerritChange_def)
  have val: "?m ''Improve-docs'' = Some \<lparr>ChangeInfo = None, PullRequest = Some ?pr\<rparr>"
    by (simp add: joinPullRequests_def joinPullRequest_def pull0_def isGerritChange_def)
  have dom: "dom ?m \<subseteq> set (range_order ?x ?m)"
    by (auto simp: dom_joinPullRequests quiet_def pull0_def)
  have ranged: "ranged ?x ?m = [\<lparr>ChangeInfo = None, PullRequest = Some ?pr\<rparr>]"
    by (simp add: ranged_def quiet_def val map_filter_def)
  have disp: "dispatch ?x sync0 ''/tmp'' \<lparr>ChangeInfo = None, PullRequest = Some ?pr\<rparr> ?h1 =
     (Done, ?h')"
    by (simp add: dispatch_def quiet_def path_join_def sync0_def pull0_def closePullRequest_def
        github_url_def Sprint_int_def digit_def SplitN2_def deleteBranch_def clone_def git_def Let_def)
  have p: "poll ?x sync0 ''/tmp'' [] = (Done, ?h')"
    by (simp add: poll_def run ranged disp)
  have names: "Sprint ?x (Number ?pr) = ''3''" "Repo_Name (Head ?pr) = ''o/docs''"
    "SplitN2 ''o/docs'' ! 1 = ''docs''" "filepath_Join ?x ''/tmp'' ''docs'' = ''/tmp/docs''"
    by (simp_all add: quiet_def path_join_def pull0_def Sprint_int_def digit_def SplitN2_def)
  from C9_prefix_is_single_letter [OF p run dom fp]
  have "action_of \<lparr>ChangeInfo = None, PullRequest = Some ?pr\<rparr> = Some CloseAndDelete \<and>
        GitHubPost ''https://u:t@api.github.com/repos/o/docs/pulls/3'' (SetState ''closed'')
          \<in> set ?h' \<and>
        Git ''/tmp/docs'' [''push'', ''--delete'', ''https://u:t@github.com/o/docs'', ''Improve-docs'']
          \<in> set ?h'"
    unfolding fc ref names
    by (simp add: ref sync0_def github_url_def)
  with p ref show ?thesis
    by simp
qed

text \<open>
  C9 as stated fails: two repositories each hold a pull request from a branch named
  Improve-docs. Both head refs begin with I and no change has that id, but the map has
  one record for the ref, holding the pull request fetched last; the pass closes that
  one only.
\<close>

theorem C9_shadowed_pull_request_counterexample:
  "poll (quiet [] [''a'', ''b'']
           (\<lambda>u. if u = ''https://u:t@api.github.com/repos/o/a/pulls''
                then [pull0 7 ''Improve-docs'' ''abc'' ''o/a'']
                else [pull0 8 ''Improve-docs'' ''def'' ''o/b''])
           (\<lambda>u. []) [''Improve-docs'']) sync0 ''/tmp'' [] =
     (Done,
      [QueryChanges, GitHubGet ''https://u:t@api.github.com/users/o/repos'',
       GitHubGet ''https://u:t@api.github.com/repos/o/a/pulls'',
       GitHubGet ''https://u:t@api.github.com/repos/o/b/pulls'',
       Log ''Pull request 8 has no corresponding Gerrit change. Closing.'',
       GitHubPost ''https://u:t@api.github.com/repos/o/b/pulls/8'' (SetState ''closed''),
       Stat ''/tmp/b'', MkdirAll ''/tmp/b'',
       Git ''/tmp/b'' [''clone'', ''https://g/b'', ''/tmp/b''],
       Git ''/tmp/b'' [''checkout'', ''master''],
       Git ''/tmp/b'' [''push'', ''--delete'', ''https://u:t@github.com/o/b'', ''Improve-docs''],
       Git ''/tmp/b'' [''branch'', ''-D'', ''Improve-docs'']]) \<and>
   GitHubPost ''https://u:t@api.github.com/repos/o/a/pulls/7'' (SetState ''closed'')
     \<notin> set (snd (poll (quiet [] [''a'', ''b'']
           (\<lambda>u. if u = ''https://u:t@api.github.com/repos/o/a/pulls''
                then [pull0 7 ''Improve-docs'' ''abc'' ''o/a'']
                else [pull0 8 ''Improve-docs'' ''def'' ''o/b''])
           (\<lambda>u. []) [''Improve-docs'']) sync0 ''/tmp'' []))"
proof -
  let ?p7 = "pull0 7 ''Improve-docs'' ''abc'' ''o/a''"
  let ?p8 = "pull0 8 ''Improve-docs'' ''def'' ''o/b''"
  let ?x = "quiet [] [''a'', ''b'']
           (\<lambda>u. if u = ''https://u:t@api.github.com/repos/o/a/pulls'' then [?p7] else [?p8])
           (\<lambda>u. []) [''Improve-docs'']"
  let ?m = "joinPullRequests [?p8] (joinPullRequests [?p7] Map.empty)"
  let ?h1 = "[QueryChanges, GitHubGet ''https://u:t@api.github.com/users/o/repos'',
              GitHubGet ''https://u:t@api.github.com/repos/o/a/pulls'',
              GitHubGet ''https://u:t@api.github.com/repos/o/b/pulls'']"
  have run: "buildJoin ?x sync0 [] = (Inr ?m, ?h1)"
    by (simp add: buildJoin_def gerritChanges_def githubRepos_def pullRequests_def quiet_def
        sync0_def github_url_def)
  have val: "?m ''Improve-docs'' = Some \<lparr>ChangeInfo = None, PullRequest = Some ?p8\<rparr>"
    by (simp add: joinPullRequests_def joinPullRequest_def pull0_def isGerritChange_def)
  have ranged: "ranged ?x ?m = [\<lparr>ChangeInfo = None, PullRequest = Some ?p8\<rparr>]"
    by (simp add: ranged_def quiet_def val map_filter_def)
  have disp: "dispatch ?x sync0 ''/tmp'' \<lparr>ChangeInfo = None, PullRequest = Some ?p8\<rparr> ?h1 =
     (Done,
      [QueryChanges, GitHubGet ''https://u:t@api.github.com/users/o/repos'',
       GitHubGet ''https://u:t@api.github.com/repos/o/a/pulls'',
       GitHubGet ''https://u:t@api.github.com/repos/o/b/pulls'',
       Log ''Pull request 8 has no corresponding Gerrit change. Closing.'',
       GitHubPost ''https://u:t@api.github.com/repos/o/b/pulls/8'' (SetState ''closed''),
       Stat ''/tmp/b'', MkdirAll ''/tmp/b'',
       Git ''/tmp/b'' [''clone'', ''https://g/b'', ''/tmp/b''],
       Git ''/tmp/b'' [''checkout'', ''master''],
       Git ''/tmp/b'' [''push'', ''--delete'', ''https://u:t@github.com/o/b'', ''Improve-docs''],
       Git ''/tmp/b'' [''branch'', ''-D'', ''Improve-docs'']])"
    by (simp add: dispatch_def quiet_def path_join_def sync0_def pull0_def closePullRequest_def
        github_url_def Sprint_int_def digit_def SplitN2_def deleteBranch_def clone_def git_def Let_def)
  have p: "poll ?x sync0 ''/tmp'' [] =
     (Done,
      [QueryChanges, GitHubGet ''https://u:t@api.github.com/users/o/repos'',
       GitHubGet ''https://u:t@api.github.com/repos/o/a/pulls'',
       GitHubGet ''https://u:t@api.github.com/repos/o/b/pulls'',
       Log ''Pull request 8 has no corresponding Gerrit change. Closing.'',
       GitHubPost ''https://u:t@api.github.com/repos/o/b/pulls/8'' (SetState ''closed''),
       Stat ''/tmp/b'', MkdirAll ''/tmp/b'',
       Git ''/tmp/b'' [''clone'', ''https://g/b'', ''/tmp/b''],
       Git ''/tmp/b'' [''checkout'', ''master''],
       Git ''/tmp/b'' [''push'', ''--delete'', ''https://u:t@github.com/o/b'', ''Improve-docs''],
       Git ''/tmp/b'' [''branch'', ''-D'', ''Improve-docs'']])"
    by (simp add: poll_def run ranged disp)
  show ?thesis
    unfolding p by simp
qed

end
